theory Spec2Isabelle
  imports Complex_Main
begin

section \<open>Conventions\<close>

text \<open>
  The development embeds the parts of the browser agent that the checked properties are
  about: the LLM client (\<^verbatim>\<open>nvidia_api.py\<close>), the action executor
  (\<^verbatim>\<open>action_executor.py\<close>), the decision validator
  (\<^verbatim>\<open>decision_validator.py\<close>), modal detection in the page analyzer
  (\<^verbatim>\<open>page_analyzer.py\<close>) and the decision executor and iterative loop of the agent
  (\<^verbatim>\<open>browser_agent.py\<close>).

  Everything outside the process (the HTTP endpoint, the browser driver, the operator at
  the console, the model's answers) is an explicit input: a script of replies, or a record
  of answers that the driver gives. Python \<^verbatim>\<open>str\<close> is \<open>string\<close>, and text is taken
  to be ASCII where it is lower-cased, stripped or cut. The user-facing literals of the
  source are Russian; they are written here in Latin transliteration, since only equality
  of messages is ever observed. Values that come from JSON are taken to have the types of
  the decision schema. Calls to the logger do not influence control flow and are left out;
  sleeps are recorded only for the LLM client, where the back-off schedule matters. An
  interrupt by the operator is outside the model.
\<close>

subsection \<open>Python string helpers\<close>

definition lower_char :: "char \<Rightarrow> char" where
  "lower_char c =
     (let n = (of_char c :: nat)
      in if 65 \<le> n \<and> n \<le> 90 then char_of (n + 32) else c)"

definition py_lower :: "string \<Rightarrow> string" where
  \<comment> \<open>\<^verbatim>\<open>str.lower()\<close> on ASCII text\<close>
  "py_lower s = map lower_char s"

definition is_space :: "char \<Rightarrow> bool" where
  \<comment> \<open>the ASCII whitespace that \<^verbatim>\<open>str.strip()\<close> removes\<close>
  "is_space c = (c \<in> set [CHR '' '', CHR 0x09, CHR 0x0A, CHR 0x0B, CHR 0x0C, CHR 0x0D])"

definition py_strip :: "string \<Rightarrow> string" where
  "py_strip s = rev (dropWhile is_space (rev (dropWhile is_space s)))"

section \<open>LLM client\<close>

record message =
  msg_role :: string
  msg_content :: string

definition Message :: "string \<Rightarrow> string \<Rightarrow> message" where
  "Message r c = \<lparr>msg_role = r, msg_content = c\<rparr>"

definition max_retries :: nat where
  "max_retries = 3"

definition retry_delay_base :: nat where
  "retry_delay_base = 1"

text \<open>
  The first entry of \<^verbatim>\<open>result["choices"]\<close> as \<^verbatim>\<open>_call_with_retry\<close> reads it:
  not a dict; a dict whose \<^verbatim>\<open>message\<close> is a dict (with its \<^verbatim>\<open>content\<close>);
  or a dict read through \<^verbatim>\<open>text\<close> and \<^verbatim>\<open>content\<close>.
\<close>

datatype choice =
    ChoiceNotDict
  | ChoiceMessage "string option"
  | ChoiceFlat "string option" "string option"

text \<open>
  One invocation of \<^verbatim>\<open>requests.post\<close>: it raises a connection-level error, or
  returns a status code with the \<^verbatim>\<open>choices\<close> of the decoded body (\<open>None\<close> when the
  key is absent). A body that arrives is taken to decode.
\<close>

datatype http_reply =
    ConnectionFailed
  | Reply nat "choice list option"

datatype api_error =
    ConnectionError
  | ApiStatusError nat
  | BadResponseFormat

datatype call_outcome =
    Returned "string option"
  | Raised api_error
  | StillWaiting

record retry_state =
  attempt :: nat
  conversation_history :: "message list"
  sleeps :: "nat list"
  sent :: "message list list"

definition build_payload_messages :: "message list \<Rightarrow> string \<Rightarrow> bool \<Rightarrow> message list" where
  \<comment> \<open>the \<^verbatim>\<open>messages\<close> field of \<^verbatim>\<open>_build_payload\<close>\<close>
  "build_payload_messages hist m use_history =
     (if use_history then hist else []) @ [Message ''user'' m]"

definition py_or :: "string option \<Rightarrow> string option \<Rightarrow> string option" where
  \<comment> \<open>\<^verbatim>\<open>a or b\<close> on optional strings: \<^verbatim>\<open>None\<close> and the empty string are falsy\<close>
  "py_or a b = (case a of Some s \<Rightarrow> (if s \<noteq> [] then a else b) | None \<Rightarrow> b)"

definition or_empty :: "string option \<Rightarrow> string" where
  \<comment> \<open>\<^verbatim>\<open>a or ""\<close>\<close>
  "or_empty a = (case a of Some s \<Rightarrow> s | None \<Rightarrow> [])"

definition response_text_of :: "choice \<Rightarrow> string" where
  "response_text_of c =
     or_empty (case c of
        ChoiceNotDict \<Rightarrow> None
      | ChoiceMessage content \<Rightarrow> content
      | ChoiceFlat text content \<Rightarrow> py_or text content)"

text \<open>
  The loop of \<^verbatim>\<open>_call_with_retry\<close>. The transport is a script of replies, one per
  request; when the script ends while the loop still wants to send, the outcome is
  \<open>StillWaiting\<close>. A 429 reply sleeps 10 seconds and goes round again without touching
  \<open>attempt\<close>; a connection error counts an attempt and sleeps
  \<open>retry_delay_base * 2 ^ (attempt - 1)\<close> unless the budget is used up, in which case
  it is re-raised; every other failure is raised at once.
\<close>

fun call_with_retry_loop ::
  "string \<Rightarrow> bool \<Rightarrow> http_reply list \<Rightarrow> retry_state \<Rightarrow> call_outcome \<times> retry_state" where
  "call_with_retry_loop m use_history [] st =
     (if attempt st < max_retries then (StillWaiting, st) else (Returned None, st))"
| "call_with_retry_loop m use_history (r # rs) st =
     (if \<not> attempt st < max_retries then (Returned None, st)
      else
        let st1 = st\<lparr>sent := sent st @ [build_payload_messages (conversation_history st) m use_history]\<rparr>
        in case r of
             ConnectionFailed \<Rightarrow>
               let st2 = st1\<lparr>attempt := attempt st1 + 1\<rparr>
               in if attempt st2 < max_retries
                  then call_with_retry_loop m use_history rs
                         (st2\<lparr>sleeps := sleeps st2 @ [retry_delay_base * 2 ^ (attempt st2 - 1)]\<rparr>)
                  else (Raised ConnectionError, st2)
           | Reply status choices \<Rightarrow>
               if status = 429
               then call_with_retry_loop m use_history rs (st1\<lparr>sleeps := sleeps st1 @ [10]\<rparr>)
               else if status \<noteq> 200 then (Raised (ApiStatusError status), st1)
               else (case choices of
                       Some (c # cs) \<Rightarrow>
                         let response_text = response_text_of c
                         in (Returned (Some response_text),
                             if use_history \<and> response_text \<noteq> []
                             then st1\<lparr>conversation_history :=
                                        conversation_history st1 @ [Message ''assistant'' response_text]\<rparr>
                             else st1)
                     | _ \<Rightarrow> (Raised BadResponseFormat, st1)))"

definition call_with_retry ::
  "message list \<Rightarrow> string \<Rightarrow> bool \<Rightarrow> http_reply list \<Rightarrow> call_outcome \<times> retry_state" where
  "call_with_retry hist m use_history replies =
     call_with_retry_loop m use_history replies
       \<lparr>attempt = 0, conversation_history = hist, sleeps = [], sent = []\<rparr>"


section \<open>Action executor\<close>

subsection \<open>Strings, arguments and locators\<close>

definition starts_with :: "string \<Rightarrow> string \<Rightarrow> bool" where
  \<comment> \<open>\<^verbatim>\<open>s.startswith(p)\<close>\<close>
  "starts_with s p = (take (length p) s = p)"

fun contains :: "string \<Rightarrow> string \<Rightarrow> bool" where
  \<comment> \<open>\<^verbatim>\<open>sub in s\<close>\<close>
  "contains sub [] = (sub = [])"
| "contains sub (c # cs) = (starts_with (c # cs) sub \<or> contains sub cs)"

definition dq :: string where
  \<comment> \<open>the double-quote character\<close>
  "dq = [CHR 0x22]"

definition sq :: string where
  \<comment> \<open>the single-quote character\<close>
  "sq = [CHR 0x27]"

text \<open>
  Locator arguments are a dict from keys to values; an association list with distinct keys
  stands for it. Values are strings, and \<^verbatim>\<open>is_link\<close> is read for its truth value
  only, so any non-empty string stands for a true flag.
\<close>

type_synonym args = "(string \<times> string) list"

definition args_get :: "args \<Rightarrow> string \<Rightarrow> string \<Rightarrow> string" where
  \<comment> \<open>\<^verbatim>\<open>args.get(k, default)\<close>\<close>
  "args_get a k d = (case map_of a k of Some v \<Rightarrow> v | None \<Rightarrow> d)"

text \<open>
  The locators of the driver that the executor builds. \<open>First l\<close> is \<^verbatim>\<open>l.first\<close>,
  \<open>HasText l t\<close> is \<^verbatim>\<open>l.filter(has_text=t)\<close>, \<open>Css s\<close> is
  \<^verbatim>\<open>page.locator(s)\<close>.
\<close>

datatype locator =
    GetByRole string "string option"
  | GetByLabel string
  | GetByPlaceholder string
  | GetByText string
  | GetByAltText string
  | GetByTitle string
  | GetByTestId string
  | Css string
  | HasText locator string
  | First locator

definition attr_selector :: "string \<Rightarrow> string \<Rightarrow> string" where
  \<comment> \<open>the f-string \<^verbatim>\<open>[name="value"]\<close>\<close>
  "attr_selector name v = ''['' @ name @ ''='' @ dq @ v @ dq @ '']''"

definition build_locator_from_strategy :: "string \<Rightarrow> args \<Rightarrow> locator" where
  "build_locator_from_strategy strategy a =
     (if strategy = ''role'' then
        (let role = args_get a ''role'' ''button''; name = map_of a ''name''
         in case name of
              Some n \<Rightarrow> (if n \<noteq> [] then GetByRole role (Some n) else GetByRole role None)
            | None \<Rightarrow> GetByRole role None)
      else if strategy = ''label'' then
        (let label_text = args_get a ''label'' []
         in if label_text \<noteq> [] then GetByLabel label_text else Css '':invalid'')
      else if strategy = ''placeholder'' then
        (let placeholder = args_get a ''placeholder'' []
         in if placeholder \<noteq> [] then GetByPlaceholder placeholder
            else First (GetByRole ''textbox'' None))
      else if strategy = ''text'' then
        (let text = args_get a ''text'' []
         in if text \<noteq> [] then
              (let is_link = args_get a ''is_link'' []; link_context = args_get a ''context'' []
               in if is_link \<noteq> [] then
                    (if link_context \<noteq> []
                     then First (HasText (HasText (GetByRole ''link'' None) link_context) text)
                     else First (HasText (GetByRole ''link'' None) text))
                  else First (GetByText text))
            else Css '':invalid'')
      else if strategy = ''alt'' then
        (let alt_text = args_get a ''alt'' []
         in if alt_text \<noteq> [] then GetByAltText alt_text else Css '':invalid'')
      else if strategy = ''title'' then
        (let title = args_get a ''title'' []
         in if title \<noteq> [] then GetByTitle title else Css '':invalid'')
      else if strategy = ''testid'' then
        (let testid = args_get a ''testid'' []
         in if testid \<noteq> [] then GetByTestId testid else Css '':invalid'')
      else if strategy = ''id'' then
        (let element_id = args_get a ''id'' []
         in if element_id \<noteq> [] then Css (attr_selector ''id'' element_id) else Css '':invalid'')
      else if strategy = ''name'' then
        (let name = args_get a ''name'' []
         in if name \<noteq> [] then Css (attr_selector ''name'' name) else Css '':invalid'')
      else if starts_with strategy ''data-'' then
        (let attr_value = args_get a strategy []
         in if attr_value \<noteq> [] then Css (attr_selector strategy attr_value) else Css '':invalid'')
      else if strategy = ''aria-label'' then
        (let aria_label = args_get a ''aria-label'' []
         in if aria_label \<noteq> [] then GetByLabel aria_label else Css '':invalid'')
      else Css '':invalid'')"

subsection \<open>The page as the driver presents it\<close>

text \<open>
  The operations that change the page or send it input. They are what is recorded as the
  trace of an executor call; reads (\<^verbatim>\<open>count\<close>, \<^verbatim>\<open>get_attribute\<close>, ...) are not.
\<close>

datatype browser_op =
    LocatorClick locator
  | LocatorFill locator string
  | LocatorType locator string
  | LocatorPress locator string
  | PagePress string string
  | PageClickBody int int
  | KeyboardPress string
  | PageGoto string

text \<open>
  What the driver reports about one matched link (\<^verbatim>\<open>text_content()\<close> and the
  \<^verbatim>\<open>href\<close> attribute) or one matched field (\<^verbatim>\<open>placeholder\<close>, \<^verbatim>\<open>id\<close> and the
  text of its \<^verbatim>\<open>label[for=id]\<close>, \<open>None\<close> when that query raises), or that reading
  it raised.
\<close>

datatype link_info = LinkUnreadable | LinkInfo "string option" "string option"

datatype field_info =
    FieldUnreadable
  | FieldInfo "string option" "string option" "string option"

text \<open>
  The page: for every locator that is not a \<open>First\<close>, the number of elements it matches;
  for every operation, whether the driver raises (with the exception text) or performs it;
  the details of the matched elements; and the two library functions the executor calls on
  a link target, taken as given (\<^verbatim>\<open>urlparse(href).netloc or urlparse(href).scheme\<close>).
\<close>

record page =
  matches :: "locator \<Rightarrow> nat"
  raises :: "browser_op \<Rightarrow> string option"
  links_of :: "locator \<Rightarrow> link_info list option"
  fields_of :: "locator \<Rightarrow> field_info list"
  netloc_or_scheme :: "string \<Rightarrow> string"

fun locator_count :: "page \<Rightarrow> locator \<Rightarrow> nat" where
  \<comment> \<open>\<^verbatim>\<open>locator.count()\<close>; \<^verbatim>\<open>.first\<close> keeps the first match only\<close>
  "locator_count p (First l) = min 1 (locator_count p l)"
| "locator_count p l = matches p l"

subsection \<open>Results\<close>

record variant =
  v_index :: nat
  v_text :: "string option"
  v_label :: "string option"
  v_domain :: "string option"
  v_href :: "string option"

text \<open>
  The dict an executor method returns. \<^verbatim>\<open>result.get("success")\<close> is \<open>res_success\<close>
  (an absent key reads as false); the informational \<^verbatim>\<open>suggestion\<close> and
  \<^verbatim>\<open>message\<close> texts, which nothing reads, are left out.
\<close>

record exec_result =
  res_success :: bool
  res_error :: "string option"
  res_reason :: "string option"
  res_count :: "nat option"
  res_variants :: "variant list"

definition ok_result :: exec_result where
  \<comment> \<open>\<^verbatim>\<open>{"success": True}\<close>\<close>
  "ok_result = \<lparr>res_success = True, res_error = None, res_reason = None, res_count = None,
                 res_variants = []\<rparr>"

definition error_result :: "string \<Rightarrow> exec_result" where
  \<comment> \<open>\<^verbatim>\<open>{"error": e}\<close>\<close>
  "error_result e = \<lparr>res_success = False, res_error = Some e, res_reason = None,
                      res_count = None, res_variants = []\<rparr>"

definition error_reason :: "string \<Rightarrow> string \<Rightarrow> exec_result" where
  \<comment> \<open>\<^verbatim>\<open>{"error": e, "reason": r}\<close>\<close>
  "error_reason e r = (error_result e)\<lparr>res_reason := Some r\<rparr>"


subsection \<open>Executor methods\<close>

function string_of_nat :: "nat \<Rightarrow> string" where
  \<comment> \<open>\<^verbatim>\<open>str(n)\<close> for a non-negative integer\<close>
  "string_of_nat n =
     (if n < 10 then [char_of (48 + n)]
      else string_of_nat (n div 10) @ [char_of (48 + n mod 10)])"
  by pat_completeness auto
termination
  by (relation "measure id") auto

fun run_ops :: "page \<Rightarrow> browser_op list \<Rightarrow> string option \<times> browser_op list" where
  \<comment> \<open>issue the operations in order until the driver raises; the text of the exception,
      if any, and the operations issued\<close>
  "run_ops p [] = (None, [])"
| "run_ops p (x # xs) =
     (case raises p x of
        Some msg \<Rightarrow> (Some msg, [x])
      | None \<Rightarrow> (case run_ops p xs of (r, issued) \<Rightarrow> (r, x # issued)))"

definition click_error_reason :: "string \<Rightarrow> string" where
  "click_error_reason error_msg =
     (if contains ''not visible'' error_msg \<or> contains ''not in viewport'' error_msg
      then ''Element not visible to user (off-screen or hidden)''
      else if contains ''disabled'' error_msg \<or> contains ''not enabled'' error_msg
      then ''Element is disabled''
      else if contains ''not stable'' error_msg
      then ''Element not stable in DOM (moving or detached)''
      else if contains ''no element matches'' error_msg \<or> contains ''no such element'' error_msg
      then ''Element not found in DOM''
      else if contains ''pointer-events'' error_msg
      then ''Element cannot receive events (pointer-events)''
      else if contains ''hidden behind'' error_msg \<or> contains ''covered'' error_msg
      then ''Element covered by another element''
      else take 100 error_msg)"

definition truthy :: "string option \<Rightarrow> bool" where
  \<comment> \<open>the truth value of an optional string: \<^verbatim>\<open>None\<close> and \<^verbatim>\<open>""\<close> are false\<close>
  "truthy a = (case a of Some s \<Rightarrow> s \<noteq> [] | None \<Rightarrow> False)"

definition link_variant :: "page \<Rightarrow> nat \<Rightarrow> link_info \<Rightarrow> variant" where
  "link_variant p i li =
     (case li of
        LinkUnreadable \<Rightarrow>
          \<lparr>v_index = i, v_text = Some ''Link (could not parse)'', v_label = None,
           v_domain = None, v_href = None\<rparr>
      | LinkInfo link_text link_href \<Rightarrow>
          \<lparr>v_index = i,
           v_text = Some (if truthy link_text
                          then take 50 (py_strip (takeWhile (\<lambda>c. c \<noteq> CHR 0x0A) (or_empty link_text)))
                          else ''untitled''),
           v_label = None,
           v_domain = Some (if truthy link_href then netloc_or_scheme p (or_empty link_href)
                            else ''unknown''),
           v_href = Some (if truthy link_href then take 60 (or_empty link_href) else [])\<rparr>)"

definition generic_variant :: "nat \<Rightarrow> variant" where
  \<comment> \<open>\<^verbatim>\<open>{"text": "Multiple matches", "index": i}\<close>\<close>
  "generic_variant i =
     \<lparr>v_index = i, v_text = Some ''Multiple matches'', v_label = None, v_domain = None,
      v_href = None\<rparr>"

definition click_variants :: "page \<Rightarrow> string \<Rightarrow> args \<Rightarrow> locator \<Rightarrow> nat \<Rightarrow> variant list" where
  "click_variants p locator_strategy locator_args loc n =
     (let is_link = (locator_strategy = ''text'' \<and> args_get locator_args ''is_link'' [] \<noteq> []);
          variants =
            (if is_link \<and> n \<le> 5
             then (case links_of p loc of
                     None \<Rightarrow> []
                   | Some all_links \<Rightarrow>
                       map (\<lambda>(i, li). link_variant p i li)
                         (zip [0..<length (take 5 all_links)] (take 5 all_links)))
             else [])
      in if variants \<noteq> [] then variants else map generic_variant [0..<min n 3])"

text \<open>
  \<^verbatim>\<open>click\<close>, with the default button and click count. After a click that the driver
  accepted the method looks for a newly opened tab and rebinds the executor to it; that
  changes the page which later calls meet, not the result or the operations of this call,
  and is not part of the model.
\<close>

definition click :: "page \<Rightarrow> string \<Rightarrow> args \<Rightarrow> bool \<Rightarrow> exec_result \<times> browser_op list" where
  "click p locator_strategy locator_args allow_multiple =
     (if locator_strategy = [] \<or> locator_args = []
      then (error_reason ''invalid_params'' ''strategy or args empty'', [])
      else
        let loc = build_locator_from_strategy locator_strategy locator_args;
            n = locator_count p loc
        in if n = 0 then (error_result ''element_not_found'', [])
           else if n > 1 \<and> \<not> allow_multiple
           then ((error_result ''multiple_matches'')
                   \<lparr>res_count := Some n,
                    res_variants := click_variants p locator_strategy locator_args loc n,
                    res_reason := Some (''Model predostavila netochnyj selektor - najdeno ''
                                        @ string_of_nat n
                                        @ '' elementov vmesto 1. Pereformuliruj uslovie dlya klika''
                                        @ '' (dobav platformu, avtora, istochnik i t.d.)'')\<rparr>, [])
           else (case run_ops p [LocatorClick loc] of
                   (None, issued) \<Rightarrow> (ok_result, issued)
                 | (Some error_msg, issued) \<Rightarrow>
                     (error_reason ''actionability'' (click_error_reason error_msg), issued)))"

definition fallback_label :: "string option \<Rightarrow> nat \<Rightarrow> string" where
  \<comment> \<open>\<^verbatim>\<open>placeholder[:30] if placeholder else f"Field {i}"\<close>\<close>
  "fallback_label placeholder i =
     (if truthy placeholder then take 30 (or_empty placeholder) else ''Field '' @ string_of_nat i)"

definition field_variant :: "nat \<Rightarrow> field_info \<Rightarrow> variant" where
  "field_variant i fi =
     \<lparr>v_index = i, v_text = None,
      v_label = Some (case fi of
                        FieldUnreadable \<Rightarrow> ''Field '' @ string_of_nat i
                      | FieldInfo placeholder loc_id label_el \<Rightarrow>
                          (if truthy loc_id
                           then (case label_el of
                                   None \<Rightarrow> fallback_label placeholder i
                                 | Some l \<Rightarrow>
                                     (if l \<noteq> [] then take 30 l else fallback_label placeholder i))
                           else fallback_label placeholder i)),
      v_domain = None, v_href = None\<rparr>"

definition fill_error_reason :: "string \<Rightarrow> string" where
  "fill_error_reason error_msg =
     (if contains ''not visible'' error_msg \<or> contains ''not in viewport'' error_msg
      then ''Field not visible''
      else if contains ''disabled'' error_msg \<or> contains ''readonly'' error_msg
      then ''Field is disabled or readonly''
      else if contains ''not supported'' error_msg \<or> contains ''not editable'' error_msg
      then ''Field cannot be filled (not input/textarea)''
      else if contains ''no element matches'' error_msg
      then ''Field not found''
      else take 100 error_msg)"

definition fill :: "page \<Rightarrow> string \<Rightarrow> args \<Rightarrow> string \<Rightarrow> exec_result \<times> browser_op list" where
  "fill p locator_strategy locator_args text =
     (if locator_strategy = [] \<or> locator_args = []
      then (error_result ''invalid_params'', [])
      else
        let loc = build_locator_from_strategy locator_strategy locator_args;
            n = locator_count p loc
        in if n = 0 then (error_result ''element_not_found'', [])
           else if n > 1
           then (if n > 50
                 then ((error_result ''strategy_too_generic'')\<lparr>res_count := Some n\<rparr>, [])
                 else ((error_result ''strict_mode_violation'')
                         \<lparr>res_count := Some n,
                          res_variants :=
                            map (\<lambda>(i, fi). field_variant i fi)
                              (zip [0..<length (take 5 (fields_of p loc))] (take 5 (fields_of p loc)))\<rparr>,
                       []))
           else (case run_ops p [LocatorFill loc text] of
                   (None, issued) \<Rightarrow> (ok_result, issued)
                 | (Some error_msg, issued) \<Rightarrow>
                     (error_reason ''actionability'' (fill_error_reason error_msg), issued)))"

definition type_error_reason :: "string \<Rightarrow> string" where
  "type_error_reason error_msg =
     (if contains ''not visible'' error_msg \<or> contains ''not in viewport'' error_msg
      then ''Element not visible''
      else if contains ''disabled'' error_msg \<or> contains ''not enabled'' error_msg
      then ''Element is disabled''
      else if contains ''no element matches'' error_msg
      then ''Element not found''
      else if contains ''not editable'' error_msg \<or> contains ''not supported'' error_msg
      then ''Element cannot be filled (not input/textarea)''
      else take 100 error_msg)"

definition type_text ::
  "page \<Rightarrow> string \<Rightarrow> args \<Rightarrow> string \<Rightarrow> nat \<Rightarrow> exec_result \<times> browser_op list" where
  "type_text p locator_strategy locator_args text delay =
     (if locator_strategy = [] \<or> locator_args = []
      then (error_result ''invalid_params'', [])
      else
        let loc = build_locator_from_strategy locator_strategy locator_args;
            n = locator_count p loc
        in if n = 0 then (error_result ''element_not_found'', [])
           else if n > 1
           then ((error_result ''strict_mode_violation'')\<lparr>res_count := Some n\<rparr>, [])
           else (case run_ops p (if delay > 0 then map (\<lambda>c. LocatorType loc [c]) text
                                 else [LocatorType loc text]) of
                   (None, issued) \<Rightarrow> (ok_result, issued)
                 | (Some error_msg, issued) \<Rightarrow>
                     (error_reason ''actionability'' (type_error_reason error_msg), issued)))"

definition goto :: "page \<Rightarrow> string \<Rightarrow> bool \<times> browser_op list" where
  "goto p url =
     (case run_ops p [PageGoto url] of
        (None, issued) \<Rightarrow> (True, issued)
      | (Some e, issued) \<Rightarrow> (False, issued))"

definition scroll :: "page \<Rightarrow> string \<Rightarrow> nat \<Rightarrow> bool \<times> browser_op list" where
  "scroll p direction amount =
     (case run_ops p
             (if py_lower direction = ''down'' then replicate amount (KeyboardPress ''PageDown'')
              else if py_lower direction = ''up'' then replicate amount (KeyboardPress ''PageUp'')
              else []) of
        (None, issued) \<Rightarrow> (True, issued)
      | (Some e, issued) \<Rightarrow> (False, issued))"

definition press_key :: "page \<Rightarrow> string \<Rightarrow> string \<Rightarrow> args \<Rightarrow> exec_result \<times> browser_op list" where
  "press_key p key locator_strategy locator_args =
     (let key_press_failed =
            (\<lambda>(error_msg :: string). error_reason ''key_press_failed'' (take 100 error_msg))
      in if locator_strategy \<noteq> [] \<and> locator_args \<noteq> []
         then
           (let loc = build_locator_from_strategy locator_strategy locator_args;
                n = locator_count p loc
            in if n = 0 then (error_result ''element_not_found'', [])
               else (case run_ops p [LocatorPress (if n > 1 then First loc else loc) key] of
                       (None, issued) \<Rightarrow> (ok_result, issued)
                     | (Some error_msg, issued) \<Rightarrow> (key_press_failed error_msg, issued)))
         else (case run_ops p [PagePress ''body'' key] of
                 (None, issued) \<Rightarrow> (ok_result, issued)
               | (Some error_msg, issued) \<Rightarrow> (key_press_failed error_msg, issued)))"

definition wait_for_timeout :: "int \<Rightarrow> bool" where
  \<comment> \<open>a sleep of \<^verbatim>\<open>ms / 1000\<close> seconds, then \<^verbatim>\<open>True\<close>\<close>
  "wait_for_timeout ms = True"

text \<open>
  The attributes that class \<^verbatim>\<open>ActionExecutor\<close> defines. Looking up any other name
  on an executor raises \<^verbatim>\<open>AttributeError\<close>, with the text below.
\<close>

definition ActionExecutor_attributes :: "string list" where
  "ActionExecutor_attributes =
     [''page'', ''disambiguation'', ''_build_locator_from_strategy'', ''click'', ''fill'',
      ''type_text'', ''goto'', ''scroll'', ''press_key'', ''wait_for_user_action'',
      ''close_modal'', ''wait_for_timeout'']"

definition attribute_error :: "string \<Rightarrow> string" where
  "attribute_error name =
     sq @ ''ActionExecutor'' @ sq @ '' object has no attribute '' @ sq @ name @ sq"

definition self_key_press :: "page \<Rightarrow> string \<Rightarrow> string + (exec_result \<times> browser_op list)" where
  \<comment> \<open>the call \<^verbatim>\<open>self.key_press(key)\<close> of \<^verbatim>\<open>close_modal\<close>: \<open>Inl\<close> is the text of
      the exception that the attribute lookup raises\<close>
  "self_key_press p key =
     (if ''key_press'' \<in> set ActionExecutor_attributes
      then Inr (press_key p key [] [])
      else Inl (attribute_error ''key_press''))"

record close_strategy =
  cs_type :: "string option"
  cs_strategy :: "string option"
  cs_args :: "args option"

definition modal_close_failed :: "string \<Rightarrow> exec_result \<times> browser_op list" where
  \<comment> \<open>the outer \<^verbatim>\<open>except Exception\<close> of \<^verbatim>\<open>close_modal\<close>\<close>
  "modal_close_failed e = (error_reason ''modal_close_failed'' (take 100 e), [])"

definition close_modal :: "page \<Rightarrow> close_strategy option \<Rightarrow> exec_result \<times> browser_op list" where
  "close_modal p close_strategy =
     (case close_strategy of
        None \<Rightarrow>
          (case self_key_press p ''Escape'' of Inl e \<Rightarrow> modal_close_failed e | Inr r \<Rightarrow> r)
      | Some cs \<Rightarrow>
          if cs_type cs = None \<and> cs_strategy cs = None \<and> cs_args cs = None
          then (case self_key_press p ''Escape'' of Inl e \<Rightarrow> modal_close_failed e | Inr r \<Rightarrow> r)
          else
            let strategy_type = (case cs_type cs of Some t \<Rightarrow> t | None \<Rightarrow> ''button'')
            in if strategy_type = ''button'' then
                 (let strategy = cs_strategy cs;
                      a = (case cs_args cs of Some a \<Rightarrow> a | None \<Rightarrow> [])
                  in if truthy strategy \<and> a \<noteq> []
                     then click p (or_empty strategy) a False
                     else (case self_key_press p ''Escape'' of
                             Inl e \<Rightarrow> modal_close_failed e | Inr r \<Rightarrow> r))
               else if strategy_type = ''esc'' then
                 (case self_key_press p ''Escape'' of Inl e \<Rightarrow> modal_close_failed e | Inr r \<Rightarrow> r)
               else if strategy_type = ''outside'' then
                 (case run_ops p [PageClickBody 10 10] of
                    (None, issued) \<Rightarrow> (ok_result, issued)
                  | (Some e, issued) \<Rightarrow> (error_result ''outside_click_failed'', issued))
               else (error_result ''unknown_close_strategy'', []))"

section \<open>Decision validator\<close>

text \<open>
  A parsed decision, as \<^verbatim>\<open>parse_decision\<close> returns it: a JSON object that has the key
  \<^verbatim>\<open>action\<close>. The fields hold what the decision schema says they hold (strings, and
  a dict of locator arguments); \<open>None\<close> is an absent key.
\<close>

record decision =
  d_action :: string
  d_strategy :: "string option"
  d_args :: "args option"
  d_value :: "string option"
  d_reason :: "string option"
  d_target :: "string option"




definition is_digit :: "char \<Rightarrow> bool" where
  "is_digit c = (48 \<le> (of_char c :: nat) \<and> (of_char c :: nat) \<le> 57)"

definition digits_value :: "string \<Rightarrow> int" where
  "digits_value ds = foldl (\<lambda>acc c. 10 * acc + int (of_char c - (48::nat))) 0 ds"

definition py_int :: "string \<Rightarrow> int option" where
  \<comment> \<open>\<^verbatim>\<open>int(s)\<close> on a decimal literal with optional sign and surrounding blanks;
      \<open>None\<close> is \<^verbatim>\<open>ValueError\<close>\<close>
  "py_int s =
     (let t = py_strip s;
          body = (if t \<noteq> [] \<and> (hd t = CHR ''-'' \<or> hd t = CHR ''+'') then tl t else t)
      in if body \<noteq> [] \<and> list_all is_digit body
         then Some (if t \<noteq> [] \<and> hd t = CHR ''-'' then - digits_value body else digits_value body)
         else None)"


definition wait_ms_of :: "string \<Rightarrow> int option" where
  \<comment> \<open>\<^verbatim>\<open>int(value or 1000)\<close>\<close>
  "wait_ms_of v = (if v \<noteq> [] then py_int v else Some 1000)"


section \<open>Browser agent\<close>

subsection \<open>Run state\<close>

text \<open>An entry of \<^verbatim>\<open>self.failed_actions\<close>; the second kind of entry has no
  \<^verbatim>\<open>success\<close> key.\<close>

record attempt_record =
  fa_action :: string
  fa_strategy :: string
  fa_args :: args
  fa_element :: string
  fa_reason :: string
  fa_success :: "bool option"

record task =
  goal :: string
  is_risky :: bool

record agent_state =
  current_task :: task
  iteration_count :: nat
  max_iterations :: nat
  previous_page_state :: "string option"
  page_state_unchanged_count :: nat
  error_history :: "string list"
  last_error :: "string option"
  failed_actions :: "attempt_record list"

definition max_unchanged_threshold :: nat where
  "max_unchanged_threshold = 2"

definition consecutive_error_threshold :: nat where
  "consecutive_error_threshold = 3"

definition max_error_history :: nat where
  "max_error_history = 5"

definition initial_state :: "task \<Rightarrow> nat \<Rightarrow> agent_state" where
  \<comment> \<open>the run state that \<^verbatim>\<open>__init__\<close> sets up\<close>
  "initial_state t max_iter =
     \<lparr>current_task = t, iteration_count = 0, max_iterations = max_iter,
      previous_page_state = None, page_state_unchanged_count = 0,
      error_history = [], last_error = None, failed_actions = []\<rparr>"

subsection \<open>Executing one decision\<close>

text \<open>The dict that \<^verbatim>\<open>_execute_decision\<close> returns. The keys \<^verbatim>\<open>action\<close>,
  \<^verbatim>\<open>strategy\<close>, \<^verbatim>\<open>args\<close> and \<^verbatim>\<open>element_text\<close> are present only in the
  result of a blocked repetition.\<close>

record action_result =
  ar_success :: bool
  ar_error :: "string option"
  ar_task_complete :: bool
  ar_summary :: "string option"
  ar_user_input :: "string option"
  ar_action :: "string option"
  ar_strategy :: "string option"
  ar_args :: "args option"
  ar_element_text :: "string option"

definition empty_action_result :: action_result where
  "empty_action_result =
     \<lparr>ar_success = False, ar_error = None, ar_task_complete = False, ar_summary = None,
      ar_user_input = None, ar_action = None, ar_strategy = None, ar_args = None,
      ar_element_text = None\<rparr>"

definition action_error :: "string \<Rightarrow> action_result" where
  \<comment> \<open>\<^verbatim>\<open>{"error": e}\<close>\<close>
  "action_error e = empty_action_result\<lparr>ar_error := Some e\<rparr>"

definition action_success :: action_result where
  \<comment> \<open>\<^verbatim>\<open>{"success": True}\<close>\<close>
  "action_success = empty_action_result\<lparr>ar_success := True\<rparr>"

text \<open>
  What \<^verbatim>\<open>_execute_decision\<close> asks of the outside, in order: calls of the action
  executor, the direct key press on the page, the disambiguation request to the model, and
  the two operator prompts.
\<close>

datatype effect =
    ExecClick string args bool
  | ExecFill string args string
  | ExecTypeText string args string
  | ExecGoto string
  | ExecScroll string
  | ExecWaitForTimeout int
  | ExecWaitForUserAction string
  | PageKeyboardPress string
  | AskModel
  | OperatorConfirm
  | OperatorAskUser string

text \<open>The model's answer to a disambiguation prompt, after \<^verbatim>\<open>json.loads\<close>: the call
  or the decoding raises; the answer is empty; it is not a non-empty object; or it is an
  object, with its \<^verbatim>\<open>strategy\<close> and \<^verbatim>\<open>args\<close> if present.\<close>

datatype disambig_reply =
    DisambigRaises
  | DisambigEmpty
  | DisambigInvalid
  | DisambigObject "string option" "args option"

text \<open>
  The surroundings of one decision: the page, the operator's answers, the model's
  disambiguation answer, and Python's \<^verbatim>\<open>str\<close> of an arguments dict, taken as given.
\<close>

record world =
  the_page :: page
  confirm_answer :: bool
  ask_user_answer :: string
  disambig :: disambig_reply
  str_of_args :: "args \<Rightarrow> string"

function remove_all :: "string \<Rightarrow> string \<Rightarrow> string" where
  \<comment> \<open>\<^verbatim>\<open>s.replace(pat, "")\<close>\<close>
  "remove_all pat [] = []"
| "remove_all pat (c # cs) =
     (if pat \<noteq> [] \<and> starts_with (c # cs) pat
      then remove_all pat (drop (length pat) (c # cs))
      else c # remove_all pat cs)"
  by pat_completeness auto
termination
  by (relation "measure (\<lambda>(pat, s). length s)") auto

definition signature_of :: "(args \<Rightarrow> string) \<Rightarrow> string \<Rightarrow> string \<Rightarrow> args \<Rightarrow> string" where
  \<comment> \<open>\<^verbatim>\<open>f"{action}:{strategy}:{str(args)}"\<close>\<close>
  "signature_of render action strategy a = action @ '':'' @ strategy @ '':'' @ render a"

definition risk_keywords :: "string list" where
  "risk_keywords = [''oplat'', ''platyozh'', ''pay'', ''confirm'', ''udali'', ''delete'', ''otpravit'']"

definition not_executed_message :: "string \<Rightarrow> string" where
  \<comment> \<open>the error of a decision for which no branch produced a result\<close>
  "not_executed_message action = ''Dejstvie '' @ action @ '' ne vypolneno''"

definition finish :: "string \<Rightarrow> exec_result option \<Rightarrow> action_result" where
  \<comment> \<open>the check of \<^verbatim>\<open>result\<close> at the end of \<^verbatim>\<open>_execute_decision\<close>; \<open>None\<close> is a
      \<^verbatim>\<open>result\<close> that no branch has set\<close>
  "finish action result =
     (case result of
        None \<Rightarrow> action_error (not_executed_message action)
      | Some r \<Rightarrow>
          if res_success r then action_success
          else if truthy (res_error r)
          then action_error (case res_reason r of Some x \<Rightarrow> x | None \<Rightarrow> or_empty (res_error r))
          else action_error (not_executed_message action))"

definition bool_result :: "bool \<Rightarrow> exec_result" where
  \<comment> \<open>\<^verbatim>\<open>{"success": success}\<close>\<close>
  "bool_result b = ok_result\<lparr>res_success := b\<rparr>"

definition dispatch ::
  "world \<Rightarrow> string \<Rightarrow> string \<Rightarrow> args \<Rightarrow> string \<Rightarrow> string \<Rightarrow> action_result \<times> effect list" where
  "dispatch w action strategy a v reason =
     (let p = the_page w in
      if action = ''click'' then
        (let result = fst (click p strategy a False)
         in if res_error result \<in> {Some ''strict_mode_violation'', Some ''multiple_matches''}
            then (case disambig w of
                    DisambigRaises \<Rightarrow>
                      (action_error ''strict_mode_disambiguation_failed'',
                       [ExecClick strategy a False, AskModel])
                  | DisambigEmpty \<Rightarrow>
                      (action_error ''empty_disambig_response'', [ExecClick strategy a False, AskModel])
                  | DisambigInvalid \<Rightarrow>
                      (action_error ''disambig_response_invalid'', [ExecClick strategy a False, AskModel])
                  | DisambigObject st ar \<Rightarrow>
                      (let strategy' = (case st of Some x \<Rightarrow> x | None \<Rightarrow> strategy);
                           a' = (case ar of Some x \<Rightarrow> x | None \<Rightarrow> a)
                       in (finish action (Some (fst (click p strategy' a' True))),
                           [ExecClick strategy a False, AskModel, ExecClick strategy' a' True])))
            else (finish action (Some result), [ExecClick strategy a False]))
      else if action = ''fill'' then
        (let result = fst (fill p strategy a v)
         in if res_error result = Some ''strict_mode_violation''
            then (case disambig w of
                    DisambigRaises \<Rightarrow>
                      (action_error ''field_disambiguation_failed'', [ExecFill strategy a v, AskModel])
                  | DisambigEmpty \<Rightarrow>
                      (action_error ''empty_disambig_response'', [ExecFill strategy a v, AskModel])
                  | DisambigInvalid \<Rightarrow>
                      (action_error ''fill_disambig_failed'', [ExecFill strategy a v, AskModel])
                  | DisambigObject st ar \<Rightarrow>
                      (let strategy' = (case st of Some x \<Rightarrow> x | None \<Rightarrow> strategy);
                           a' = (case ar of Some x \<Rightarrow> x | None \<Rightarrow> a)
                       in (finish action (Some (fst (fill p strategy' a' v))),
                           [ExecFill strategy a v, AskModel, ExecFill strategy' a' v])))
            else (finish action (Some result), [ExecFill strategy a v]))
      else if action = ''type'' then
        (finish action (Some (fst (type_text p strategy a v 0))), [ExecTypeText strategy a v])
      else if action = ''submit'' then
        (finish action (Some (fst (click p strategy a False))), [ExecClick strategy a False])
      else if action = ''goto'' then
        (finish action (Some (bool_result (fst (goto p v)))), [ExecGoto v])
      else if action = ''scroll'' then
        (let direction = py_lower (if v \<noteq> [] then v else ''down'')
         in (finish action (Some (bool_result (fst (scroll p direction 3)))), [ExecScroll direction]))
      else if action = ''wait'' then
        (case wait_ms_of v of
           None \<Rightarrow>
             (action_error (''Oshibka vypolneniya dejstviya: ''
                            @ take 50 (''invalid literal for int() with base 10: '' @ sq @ v @ sq)), [])
         | Some wait_ms \<Rightarrow> (finish action (Some ok_result), [ExecWaitForTimeout wait_ms]))
      else if action = ''ask_user'' then
        (let user_prompt = (if reason \<noteq> [] then reason else if v \<noteq> [] then v
                            else ''Vvedite dannye:'')
         in (empty_action_result\<lparr>ar_user_input := Some (ask_user_answer w)\<rparr>,
             [OperatorAskUser user_prompt]))
      else if action = ''wait_for_user_action'' then
        (action_success,
         [ExecWaitForUserAction (if reason \<noteq> [] then reason
                                 else ''Trebuetsya dejstvie polzovatelya'')])
      else if action = ''press_key'' then
        (let key_name = (if v \<noteq> [] then v else ''Enter'')
         in (finish action
               (Some (case raises p (KeyboardPress key_name) of
                        None \<Rightarrow> ok_result
                      | Some e \<Rightarrow> error_result e)),
             [PageKeyboardPress key_name]))
      else if action = ''confirm_complete'' then
        (empty_action_result
           \<lparr>ar_task_complete := True,
            ar_summary := Some (if v \<noteq> [] then v else ''Zadacha zavershena uspeshno'')\<rparr>, [])
      else (finish action None, []))"

definition decision_action :: "decision \<Rightarrow> string" where
  \<comment> \<open>\<^verbatim>\<open>(parsed.get("action") or "").lower().strip()\<close>\<close>
  "decision_action d = py_strip (py_lower (d_action d))"

definition decision_strategy :: "decision \<Rightarrow> string" where
  \<comment> \<open>\<^verbatim>\<open>(parsed.get("strategy") or "").lower().strip()\<close>\<close>
  "decision_strategy d = py_strip (py_lower (or_empty (d_strategy d)))"

definition decision_args :: "decision \<Rightarrow> args" where
  \<comment> \<open>the arguments, built from strategy and value when the decision gives none\<close>
  "decision_args d =
     (let a = (case d_args d of Some a \<Rightarrow> a | None \<Rightarrow> [])
      in if a = [] \<and> decision_strategy d \<noteq> [] \<and> or_empty (d_value d) \<noteq> []
         then [(decision_strategy d, or_empty (d_value d))] else a)"

definition current_signature :: "world \<Rightarrow> decision \<Rightarrow> string" where
  "current_signature w d =
     signature_of (str_of_args w) (decision_action d) (decision_strategy d) (decision_args d)"

definition last_failed_signature :: "world \<Rightarrow> agent_state \<Rightarrow> string" where
  \<comment> \<open>read only when \<open>failed_actions\<close> is not empty\<close>
  "last_failed_signature w s =
     signature_of (str_of_args w) (fa_action (last (failed_actions s)))
       (fa_strategy (last (failed_actions s))) (fa_args (last (failed_actions s)))"

definition blocked_result :: "world \<Rightarrow> decision \<Rightarrow> action_result" where
  "blocked_result w d =
     (action_error ''BLOCKED_REPEATED_ACTION'')
       \<lparr>ar_action := Some (decision_action d), ar_strategy := Some (decision_strategy d),
        ar_args := Some (decision_args d),
        ar_element_text := Some (str_of_args w (decision_args d))\<rparr>"

definition execute_decision ::
  "world \<Rightarrow> agent_state \<Rightarrow> string + decision \<Rightarrow> action_result \<times> effect list" where
  "execute_decision w s parsed =
     (case parsed of
        Inl parse_error \<Rightarrow> (action_error (''Nekorrektnoe reshenie ot LLM: '' @ parse_error), [])
      | Inr d \<Rightarrow>
          let action = decision_action d;
              strategy = decision_strategy d;
              v = or_empty (d_value d);
              reason = or_empty (d_reason d);
              a = decision_args d
          in if page_state_unchanged_count s > 0 \<and> failed_actions s \<noteq> []
                \<and> current_signature w d = last_failed_signature w s
             then (blocked_result w d, [])
             else
               let fix1 = (strategy = ''text'' \<and> starts_with (args_get a ''text'' []) ''[aria-label]'');
                   a1 = (if fix1
                         then [(''aria-label'', py_strip (remove_all ''[aria-label]'' (args_get a ''text'' [])))]
                         else a);
                   strategy1 = (if fix1 then ''aria-label'' else strategy);
                   fix2 = (strategy1 = ''text'' \<and> starts_with (args_get a1 ''text'' []) ''[id]'');
                   a2 = (if fix2
                         then [(''id'', py_strip (remove_all ''[id]'' (args_get a1 ''text'' [])))]
                         else a1);
                   strategy2 = (if fix2 then ''id'' else strategy1);
                   gate = (is_risky (current_task s)
                           \<and> action \<in> set [''submit'', ''click'', ''confirm_complete'']
                           \<and> list_ex (\<lambda>kw. contains kw (py_lower strategy2)
                                            \<or> contains kw (py_lower reason)) risk_keywords)
               in if gate \<and> \<not> confirm_answer w
                  then (action_error ''Dejstvie otmeneno polzovatelem (bezopasnost)'', [OperatorConfirm])
                  else (case dispatch w action strategy2 a2 v reason of
                          (r, effects) \<Rightarrow> (r, (if gate then [OperatorConfirm] else []) @ effects)))"

subsection \<open>The iterative loop\<close>

datatype status = Completed | Stuck | MaxIterationsReached | TaskError

record task_result =
  tr_status :: status
  tr_iterations :: "nat option"
  tr_last_error :: "string option"
  tr_summary :: "string option"

definition has_page_changed :: "agent_state \<Rightarrow> string \<Rightarrow> agent_state" where
  \<comment> \<open>the state after \<^verbatim>\<open>_has_page_changed(current_fingerprint)\<close>\<close>
  "has_page_changed s current_fingerprint =
     (case previous_page_state s of
        None \<Rightarrow> s
      | Some prev \<Rightarrow>
          if current_fingerprint \<noteq> prev then s\<lparr>page_state_unchanged_count := 0\<rparr>
          else s\<lparr>page_state_unchanged_count := page_state_unchanged_count s + 1\<rparr>)"

definition observe_page :: "agent_state \<Rightarrow> string \<Rightarrow> agent_state" where
  \<comment> \<open>the fingerprint is compared, then stored\<close>
  "observe_page s current_fingerprint =
     (has_page_changed s current_fingerprint)\<lparr>previous_page_state := Some current_fingerprint\<rparr>"

definition record_attempt :: "agent_state \<Rightarrow> string + decision \<Rightarrow> action_result \<Rightarrow> agent_state" where
  \<comment> \<open>the entry appended after every decision that parses\<close>
  "record_attempt s parsed action_result =
     (case parsed of
        Inl e \<Rightarrow> s
      | Inr d \<Rightarrow>
          s\<lparr>failed_actions := failed_actions s @
               [\<lparr>fa_action = d_action d,
                 fa_strategy = (case d_strategy d of Some x \<Rightarrow> x | None \<Rightarrow> ''unknown''),
                 fa_args = (case d_args d of Some x \<Rightarrow> x | None \<Rightarrow> []),
                 fa_element = take 40 (or_empty (d_value d)),
                 fa_reason = (case d_reason d of Some x \<Rightarrow> x | None \<Rightarrow> ''no reason''),
                 fa_success = Some (\<not> truthy (ar_error action_result))\<rparr>]\<rparr>)"

definition record_failure :: "agent_state \<Rightarrow> action_result \<Rightarrow> string \<Rightarrow> agent_state" where
  \<comment> \<open>the second entry, appended when the failed result carries an \<^verbatim>\<open>action\<close> key\<close>
  "record_failure s action_result error_msg =
     (case ar_action action_result of
        None \<Rightarrow> s
      | Some act \<Rightarrow>
          s\<lparr>failed_actions := failed_actions s @
               [\<lparr>fa_action = act,
                 fa_strategy = (case ar_strategy action_result of Some x \<Rightarrow> x | None \<Rightarrow> ''unknown''),
                 fa_args = (case ar_args action_result of Some x \<Rightarrow> x | None \<Rightarrow> []),
                 fa_element = (case ar_element_text action_result of Some x \<Rightarrow> x | None \<Rightarrow> ''unknown''),
                 fa_reason = error_msg,
                 fa_success = None\<rparr>]\<rparr>)"

definition push_error :: "string list \<Rightarrow> string \<Rightarrow> string list" where
  \<comment> \<open>append, then drop the oldest entry when more than \<open>max_error_history\<close> are kept\<close>
  "push_error h error_msg =
     (let h' = h @ [error_msg] in if length h' > max_error_history then tl h' else h')"

definition consecutive_same_errors :: "string list \<Rightarrow> string \<Rightarrow> nat" where
  \<comment> \<open>how many entries at the end of the history equal the current error\<close>
  "consecutive_same_errors h current_error = length (takeWhile (\<lambda>e. e = current_error) (rev h))"

definition page_stuck_message :: string where
  "page_stuck_message = ''Stranitsa ne izmenyaetsya posle dejstvij''"

definition handle_error :: "agent_state \<Rightarrow> action_result \<Rightarrow> string \<Rightarrow> task_result option \<times> agent_state" where
  \<comment> \<open>the branch \<^verbatim>\<open>if action_result.get("error")\<close> of the loop body\<close>
  "handle_error s action_result error_msg =
     (let s1 = record_failure s action_result error_msg
      in if page_state_unchanged_count s1 \<ge> max_unchanged_threshold
         then (Some \<lparr>tr_status = Stuck, tr_iterations = Some (iteration_count s1),
                      tr_last_error = Some page_stuck_message, tr_summary = None\<rparr>, s1)
         else
           let s2 = s1\<lparr>error_history := push_error (error_history s1) error_msg\<rparr>
           in if consecutive_same_errors (error_history s2) error_msg \<ge> consecutive_error_threshold
              then (Some \<lparr>tr_status = Stuck, tr_iterations = Some (iteration_count s2),
                           tr_last_error = Some error_msg, tr_summary = None\<rparr>, s2)
              else (None, s2))"

text \<open>
  What one pass of the loop body meets: the analysis or the fingerprint raises; a CAPTCHA is
  found; something raises after the fingerprint is stored (the model cannot be reached,
  say); the completion check says the task is done; or the model's reply is parsed and
  executed. A pass carries the page fingerprint it computes and, for a decision, whatever
  \<^verbatim>\<open>_execute_decision\<close> needs besides the run state. An exception in a pass is logged
  and the loop goes on.
\<close>

datatype 'x iter_event =
    AnalysisFails
  | CaptchaFound string
  | FailsAfterFingerprint string
  | AlreadyComplete string "string option"
  | Decision string "string + decision" 'x

definition fails_with :: "action_result \<Rightarrow> string \<Rightarrow> bool" where
  \<comment> \<open>the result sends the loop body into its error branch, with this message\<close>
  "fails_with r e = (ar_error r = Some e \<and> e \<noteq> [] \<and> \<not> ar_task_complete r \<and> \<not> truthy (ar_user_input r))"

definition handle_result ::
  "agent_state \<Rightarrow> string + decision \<Rightarrow> action_result \<Rightarrow> task_result option \<times> agent_state" where
  \<comment> \<open>the loop body from the return of \<^verbatim>\<open>_execute_decision\<close> on\<close>
  "handle_result s parsed action_result =
     (let s1 = record_attempt s parsed action_result
      in if ar_task_complete action_result
         then (Some \<lparr>tr_status = Completed, tr_iterations = Some (iteration_count s1),
                      tr_last_error = None,
                      tr_summary = Some (case ar_summary action_result of
                                           Some x \<Rightarrow> x | None \<Rightarrow> ''Zadacha vypolnena uspeshno'')\<rparr>, s1)
         else if truthy (ar_user_input action_result)
         then (None, s1\<lparr>current_task := (current_task s1)
                 \<lparr>goal := goal (current_task s1) @ '' - konkretnyj vvod: ''
                           @ or_empty (ar_user_input action_result)\<rparr>\<rparr>)
         else if truthy (ar_error action_result)
         then handle_error s1 action_result (or_empty (ar_error action_result))
         else (None, s1\<lparr>error_history := []\<rparr>))"

definition state_at_decision :: "agent_state \<Rightarrow> string \<Rightarrow> agent_state" where
  \<comment> \<open>the run state in which a pass that began in \<open>s\<close> and computed the fingerprint
      \<open>fp\<close> executes its decision\<close>
  "state_at_decision s fp = observe_page (s\<lparr>iteration_count := iteration_count s + 1\<rparr>) fp"

definition iteration ::
  "(agent_state \<Rightarrow> string + decision \<Rightarrow> 'x \<Rightarrow> action_result) \<Rightarrow> agent_state \<Rightarrow> 'x iter_event
   \<Rightarrow> task_result option \<times> agent_state" where
  "iteration exec s ev =
     (let s1 = s\<lparr>iteration_count := iteration_count s + 1\<rparr>
      in case ev of
           AnalysisFails \<Rightarrow> (None, s1)
         | CaptchaFound fp \<Rightarrow>
             (None, (observe_page s1 fp)\<lparr>previous_page_state := None, page_state_unchanged_count := 0\<rparr>)
         | FailsAfterFingerprint fp \<Rightarrow> (None, observe_page s1 fp)
         | AlreadyComplete fp res \<Rightarrow>
             (Some \<lparr>tr_status = Completed, tr_iterations = Some (iteration_count s1),
                    tr_last_error = None, tr_summary = res\<rparr>, observe_page s1 fp)
         | Decision fp parsed x \<Rightarrow>
             (let s2 = state_at_decision s fp
              in handle_result s2 parsed (exec s2 parsed x)))"

definition max_iterations_result :: "agent_state \<Rightarrow> task_result" where
  "max_iterations_result s =
     \<lparr>tr_status = MaxIterationsReached, tr_iterations = Some (iteration_count s),
      tr_last_error = None, tr_summary = None\<rparr>"

text \<open>
  The \<^verbatim>\<open>while\<close> loop over a script of passes. \<open>None\<close> as the result means that the
  script ended before the loop did.
\<close>

fun iterate ::
  "(agent_state \<Rightarrow> string + decision \<Rightarrow> 'x \<Rightarrow> action_result) \<Rightarrow> agent_state \<Rightarrow> 'x iter_event list
   \<Rightarrow> task_result option \<times> agent_state" where
  "iterate exec s [] =
     (if iteration_count s < max_iterations s then (None, s) else (Some (max_iterations_result s), s))"
| "iterate exec s (ev # evs) =
     (if \<not> iteration_count s < max_iterations s then (Some (max_iterations_result s), s)
      else (case iteration exec s ev of
              (Some r, s') \<Rightarrow> (Some r, s')
            | (None, s') \<Rightarrow> iterate exec s' evs))"

definition execute_iteratively ::
  "(agent_state \<Rightarrow> string + decision \<Rightarrow> 'x \<Rightarrow> action_result) \<Rightarrow> agent_state \<Rightarrow> 'x iter_event list
   \<Rightarrow> task_result option \<times> agent_state" where
  "execute_iteratively exec s evs = iterate exec (s\<lparr>error_history := [], last_error := None\<rparr>) evs"

text \<open>
  \<^verbatim>\<open>execute_task\<close>: the task analysis, the choice of the start URL and the navigation
  either end the call with an error result (after the task was set, or before), or yield
  the task and let the loop start. An interrupt by the operator is not modelled.
\<close>

datatype startup = StartupFails "task option" task_result | Started task

definition execute_task ::
  "(agent_state \<Rightarrow> string + decision \<Rightarrow> 'x \<Rightarrow> action_result) \<Rightarrow> agent_state \<Rightarrow> startup
   \<Rightarrow> 'x iter_event list \<Rightarrow> task_result option \<times> agent_state" where
  "execute_task exec s start evs =
     (case start of
        StartupFails t r \<Rightarrow>
          (Some r, (case t of Some t' \<Rightarrow> s\<lparr>current_task := t'\<rparr> | None \<Rightarrow> s))
      | Started t \<Rightarrow> execute_iteratively exec (s\<lparr>current_task := t, iteration_count := 0\<rparr>) evs)"

text \<open>The two ways a pass gets its action result: from \<^verbatim>\<open>_execute_decision\<close> run in
  the given surroundings, or handed in as the value that call returned.\<close>

definition run_decision :: "agent_state \<Rightarrow> string + decision \<Rightarrow> world \<Rightarrow> action_result" where
  "run_decision s parsed w = fst (execute_decision w s parsed)"

definition returned :: "agent_state \<Rightarrow> string + decision \<Rightarrow> action_result \<Rightarrow> action_result" where
  "returned s parsed r = r"

section \<open>Page analyzer: modal detection and search hints\<close>

text \<open>
  The document as the analyzer's queries see it: the elements in document order, each with
  the attributes the queries read, whether the driver finds it visible, the height of its
  bounding box (\<open>None\<close> when it has no box), its inner text, the buttons inside it (inner
  text and \<^verbatim>\<open>aria-label\<close>) and the clickable elements inside it (visibility, and the
  text that the three reads \<^verbatim>\<open>inner_text\<close>, \<^verbatim>\<open>aria-label\<close>, \<^verbatim>\<open>value\<close> resolve
  to). Reads of the driver are taken not to raise.
\<close>

record element =
  el_tag :: string
  el_class :: string
  el_role_attr :: "string option"
  el_aria_role :: "string option"
  el_visible :: bool
  el_height :: "real option"
  el_inner_text :: string
  el_buttons :: "(string \<times> string option) list"
  el_clickables :: "(bool \<times> string) list"

text \<open>
  Besides the elements, the facts about the page that the hint sections are built from,
  each as the corresponding block of \<^verbatim>\<open>_get_search_hints\<close> computes it from the
  driver: the hint texts of the accepted input fields inside the modal and on the page,
  the labels of the buttons and links that have one, the counts by role, the option
  descriptions of a listbox, the lines of the block on dialogs with options, and whether a
  field with placeholder \<^verbatim>\<open>search\<close> is visible.
\<close>

record document =
  elements :: "element list"
  video_count :: nat
  modal_input_hints :: "string list"
  page_input_hints :: "string list"
  buttons_count :: nat
  button_labels :: "string list"
  links_count :: nat
  link_labels :: "string list"
  checkbox_count :: nat
  radio_count :: nat
  select_count :: nat
  listbox_count :: nat
  option_descriptions :: "string list"
  dialog_option_lines :: "string list"
  search_placeholder_visible :: bool

definition class_tokens :: "string \<Rightarrow> string list" where
  \<comment> \<open>the class names of a \<^verbatim>\<open>class\<close> attribute\<close>
  "class_tokens s =
     filter (\<lambda>w. w \<noteq> [])
       (foldr (\<lambda>c acc. if is_space c then [] # acc
                        else (case acc of [] \<Rightarrow> [[c]] | w # ws \<Rightarrow> (c # w) # ws)) s [[]])"

definition matches_modal_selector :: "element \<Rightarrow> bool" where
  \<comment> \<open>\<^verbatim>\<open>div[class*="modal"], div[class*="popup"], [role="dialog"], .fade.show\<close>\<close>
  "matches_modal_selector e =
     ((el_tag e = ''div'' \<and> contains ''modal'' (el_class e))
      \<or> (el_tag e = ''div'' \<and> contains ''popup'' (el_class e))
      \<or> el_role_attr e = Some ''dialog''
      \<or> (''fade'' \<in> set (class_tokens (el_class e)) \<and> ''show'' \<in> set (class_tokens (el_class e))))"

definition get_modal_locator :: "document \<Rightarrow> element option" where
  "get_modal_locator doc =
     (let dialogs = filter (\<lambda>e. el_aria_role e = Some ''dialog'') (elements doc);
          candidates = filter matches_modal_selector (elements doc)
      in if dialogs \<noteq> [] \<and> el_visible (hd dialogs) then Some (hd dialogs)
         else if candidates \<noteq> [] \<and> el_visible (last candidates) then Some (last candidates)
         else None)"

definition check_modal_visible :: "document \<Rightarrow> bool" where
  "check_modal_visible doc =
     (let dialogs = filter (\<lambda>e. el_aria_role e = Some ''dialog'') (elements doc);
          candidates = filter matches_modal_selector (elements doc)
      in if dialogs \<noteq> [] \<and> el_visible (hd dialogs) then True
         else if candidates \<noteq> [] \<and> el_visible (last candidates) then True
         else False)"

datatype hint =
    PlayerLoaded | PlayerHowTo | Blank
  | FillHeader | FillHint string
  | ButtonsHeader | ButtonHint string | ButtonsWithoutText nat
  | LinksHeader | LinkHint string | LinksWithoutText nat
  | CheckboxCount nat | RadioCount nat | SelectCount nat
  | ListboxCount nat | SearchResultsHeader | SearchResultHint string
  | DialogOptionLine string
  | SelectionListHeader | ModalButtonsHeader | ModalClickHint string
  | SearchInputHint
  | DynamicContentHint

definition add_unique :: "'a list \<Rightarrow> 'a \<Rightarrow> 'a list" where
  \<comment> \<open>\<^verbatim>\<open>if x not in xs: xs.append(x)\<close>\<close>
  "add_unique xs x = (if x \<in> set xs then xs else xs @ [x])"

definition get_search_hints :: "document \<Rightarrow> hint list" where
  "get_search_hints doc =
     (let modal_window_open = check_modal_visible doc;
          player = (if \<not> modal_window_open \<and> video_count doc > 0
                    then [PlayerLoaded, PlayerHowTo, Blank] else []);
          input_info = (if modal_window_open \<and> get_modal_locator doc \<noteq> None
                        then foldl add_unique [] (modal_input_hints doc) else []);
          inputs = (if \<not> modal_window_open
                    then (let input_info = foldl add_unique input_info (page_input_hints doc)
                          in if input_info \<noteq> []
                             then [FillHeader] @ map FillHint input_info @ [Blank] else [])
                    else []);
          buttons = (if buttons_count doc > 0 \<and> \<not> modal_window_open
                     then (let button_list = foldl add_unique [] (button_labels doc)
                           in if button_list \<noteq> []
                              then [ButtonsHeader] @ map ButtonHint button_list
                              else [ButtonsWithoutText (buttons_count doc)])
                     else []);
          links = (if links_count doc > 0 \<and> \<not> modal_window_open
                   then (let link_list = foldl add_unique [] (link_labels doc)
                         in if link_list \<noteq> []
                            then [Blank, LinksHeader] @ map LinkHint link_list
                            else [LinksWithoutText (links_count doc)])
                   else []);
          counts = (if checkbox_count doc > 0 \<and> \<not> modal_window_open
                    then [CheckboxCount (checkbox_count doc)] else [])
                   @ (if radio_count doc > 0 \<and> \<not> modal_window_open
                      then [RadioCount (radio_count doc)] else [])
                   @ (if select_count doc > 0 \<and> \<not> modal_window_open
                      then [SelectCount (select_count doc)] else []);
          listbox = (if \<not> modal_window_open \<and> listbox_count doc > 0
                     then [ListboxCount (listbox_count doc)]
                          @ (if option_descriptions doc \<noteq> []
                             then [Blank, SearchResultsHeader]
                                  @ map SearchResultHint (option_descriptions doc)
                             else [])
                     else []);
          dialog_options = map DialogOptionLine (dialog_option_lines doc);
          modal_buttons =
            (if modal_window_open
             then (case get_modal_locator doc of
                     None \<Rightarrow> []
                   | Some m \<Rightarrow>
                       if el_clickables m \<noteq> []
                       then [Blank, (if length (el_clickables m) > 3 then SelectionListHeader
                                     else ModalButtonsHeader)]
                            @ map (\<lambda>(vis, t). ModalClickHint (take 60 t))
                                (filter (\<lambda>(vis, t). vis \<and> t \<noteq> []) (el_clickables m))
                       else [])
             else []);
          search_input = (if \<not> modal_window_open \<and> search_placeholder_visible doc
                          then [SearchInputHint] else []);
          hints = player @ inputs @ buttons @ links @ counts @ listbox @ dialog_options
                  @ modal_buttons @ search_input
      in if hints = [] then [DynamicContentHint] else hints)"

record interactive_element =
  ie_id :: string
  ie_type :: string
  ie_text :: string
  locator_strategy :: "string option"
  locator_args :: args
  can_click :: bool

definition close_button :: "string \<Rightarrow> string \<Rightarrow> interactive_element" where
  \<comment> \<open>a close element that is clicked by its text\<close>
  "close_button shown arg =
     \<lparr>ie_id = ''modal_close'', ie_type = ''button'', ie_text = shown,
      locator_strategy = Some ''text'', locator_args = [(''text'', arg)], can_click = True\<rparr>"

definition is_close_button :: "string \<times> string option \<Rightarrow> bool" where
  \<comment> \<open>the two one-character entries of the list are the heavy multiplication X and the
      multiplication sign, given by their UTF-8 bytes\<close>
  "is_close_button b =
     (case b of (inner_text, aria_label) \<Rightarrow>
        py_lower (py_strip inner_text)
          \<in> set [''close'', ''x'', [CHR 0xE2, CHR 0x9C, CHR 0x95], [CHR 0xC3, CHR 0x97]]
        \<or> (truthy aria_label
            \<and> (contains ''close'' (py_lower (or_empty aria_label))
                \<or> contains ''zakryt'' (py_lower (or_empty aria_label)))))"

definition action_button_texts :: "string list" where
  "action_button_texts =
     [''Cancel'', ''cancel'', ''CANCEL'', ''No'', ''no'', ''NO'',
      ''Otmena'', ''otmena'', ''Zakryt'', ''zakryt'', ''Net'', ''net'']"

definition find_modal_close_strategy :: "element \<Rightarrow> interactive_element" where
  "find_modal_close_strategy m =
     (case filter is_close_button (el_buttons m) of
        (inner_text, aria_label) # rest \<Rightarrow>
          (let button_text = py_strip inner_text
           in close_button (if button_text \<noteq> [] then button_text
                            else if truthy aria_label then or_empty aria_label else ''Close'')
                           (if button_text \<noteq> [] then button_text else or_empty aria_label))
      | [] \<Rightarrow>
          (case filter (\<lambda>(inner_text, aria_label). py_strip inner_text \<in> set action_button_texts)
                  (el_buttons m) of
             (inner_text, aria_label) # rest \<Rightarrow> close_button (py_strip inner_text) (py_strip inner_text)
           | [] \<Rightarrow>
               (case el_buttons m of
                  (inner_text, aria_label) # rest \<Rightarrow>
                    if py_strip inner_text \<noteq> []
                    then close_button (py_strip inner_text) (py_strip inner_text)
                    else \<lparr>ie_id = ''modal_close_esc'', ie_type = ''key_press'', ie_text = ''ESC'',
                          locator_strategy = None, locator_args = [], can_click = True\<rparr>
                | [] \<Rightarrow>
                    \<lparr>ie_id = ''modal_close_esc'', ie_type = ''key_press'', ie_text = ''ESC'',
                     locator_strategy = None, locator_args = [], can_click = True\<rparr>)))"

record modal_state =
  modal_open :: bool
  modal_text :: string
  modal_close_element :: "interactive_element option"

definition big_enough :: "element \<Rightarrow> bool" where
  \<comment> \<open>\<^verbatim>\<open>not (not bbox or bbox['height'] < 150)\<close>\<close>
  "big_enough e = (case el_height e of None \<Rightarrow> False | Some h \<Rightarrow> \<not> h < 150)"

definition detect_modals :: "document \<Rightarrow> modal_state" where
  "detect_modals doc =
     (let found = (\<lambda>m. \<lparr>modal_open = True, modal_text = el_inner_text m,
                         modal_close_element = Some (find_modal_close_strategy m)\<rparr>);
          dialogs = filter (\<lambda>e. el_role_attr e = Some ''dialog'' \<or> el_role_attr e = Some ''alertdialog'')
                      (elements doc);
          candidates = filter matches_modal_selector (elements doc)
      in case filter (\<lambda>e. el_visible e \<and> big_enough e) dialogs of
           m # rest \<Rightarrow> found m
         | [] \<Rightarrow>
             if candidates \<noteq> [] \<and> el_visible (last candidates) \<and> big_enough (last candidates)
             then found (last candidates)
             else \<lparr>modal_open = False, modal_text = [], modal_close_element = None\<rparr>)"

record page_analysis =
  search_hints :: "hint list"
  modal :: modal_state

definition analyze :: "document \<Rightarrow> page_analysis" where
  \<comment> \<open>the hint and modal parts of \<^verbatim>\<open>PageAnalyzer.analyze\<close>\<close>
  "analyze doc = \<lparr>search_hints = get_search_hints doc, modal = detect_modals doc\<rparr>"

section \<open>Concrete inputs\<close>

text \<open>The pages, decisions and states at which the properties below are instantiated.\<close>

definition quiet_page :: page where
  \<comment> \<open>a page on which nothing matches and no operation raises\<close>
  "quiet_page = \<lparr>matches = (\<lambda>l. 0), raises = (\<lambda>x. None), links_of = (\<lambda>l. None),
                  fields_of = (\<lambda>l. []), netloc_or_scheme = (\<lambda>u. [])\<rparr>"



definition plain_task :: task where
  "plain_task = \<lparr>goal = ''open the page'', is_risky = False\<rparr>"



definition render_args :: "args \<Rightarrow> string" where
  \<comment> \<open>a rendering of an arguments dict, standing in for Python's\<close>
  "render_args a = concat (map (\<lambda>(k, v). k @ ''='' @ v @ '';'') a)"

definition empty_world :: world where
  \<comment> \<open>a page on which nothing matches; the operator confirms; the model gives no answer\<close>
  "empty_world = \<lparr>the_page = quiet_page, confirm_answer = True, ask_user_answer = [],
                   disambig = DisambigEmpty, str_of_args = render_args\<rparr>"


definition click_buy :: decision where
  "click_buy = \<lparr>d_action = ''click'', d_strategy = Some ''text'', d_args = Some [(''text'', ''Buy'')],
                 d_value = None, d_reason = None, d_target = None\<rparr>"

definition after_failed_click :: agent_state where
  \<comment> \<open>the run state after a first pass in which the click on Buy was not found\<close>
  "after_failed_click =
     \<lparr>current_task = plain_task, iteration_count = 1, max_iterations = 50,
      previous_page_state = Some ''fp1'', page_state_unchanged_count = 0,
      error_history = [''element_not_found''], last_error = None,
      failed_actions = [\<lparr>fa_action = ''click'', fa_strategy = ''text'',
                          fa_args = [(''text'', ''Buy'')], fa_element = [],
                          fa_reason = ''no reason'', fa_success = Some False\<rparr>]\<rparr>"

definition after_first_task :: agent_state where
  \<comment> \<open>the run state when a task ends in whose first pass the click on Buy was not found
      and whose second pass, on the unchanged page, found the task complete\<close>
  "after_first_task =
     after_failed_click\<lparr>iteration_count := 2, page_state_unchanged_count := 1\<rparr>"

definition banner :: element where
  \<comment> \<open>a visible cookie banner, 100 pixels high, whose class contains modal\<close>
  "banner =
     \<lparr>el_tag = ''div'', el_class = ''cookie-modal'', el_role_attr = None, el_aria_role = None,
      el_visible = True, el_height = Some 100, el_inner_text = ''We use cookies'',
      el_buttons = [], el_clickables = []\<rparr>"

definition banner_doc :: document where
  \<comment> \<open>a page with that banner, two labelled buttons and one labelled link\<close>
  "banner_doc =
     \<lparr>elements = [banner], video_count = 0, modal_input_hints = [], page_input_hints = [],
      buttons_count = 2, button_labels = [''Search'', ''Login''],
      links_count = 1, link_labels = [''About us''],
      checkbox_count = 0, radio_count = 0, select_count = 0, listbox_count = 0,
      option_descriptions = [], dialog_option_lines = [], search_placeholder_visible = False\<rparr>"

section \<open>Properties\<close>

subsection \<open>Helper facts\<close>










subsection \<open>Scrolling in an unknown direction\<close>



subsection \<open>Closing a modal with Escape\<close>

lemma key_press_is_no_attribute: "self_key_press p key = Inl (attribute_error ''key_press'')"
  by (simp add: self_key_press_def ActionExecutor_attributes_def)

lemma attribute_error_short: "take 100 (attribute_error ''key_press'') = attribute_error ''key_press''"
  by (simp add: attribute_error_def sq_def)

text \<open>
  C5. The claim is that \<^verbatim>\<open>close_modal\<close> without a strategy, with type \<^verbatim>\<open>esc\<close>, or
  with type \<^verbatim>\<open>button\<close> and no sub-strategy presses Escape and returns the result of
  the key press. The method calls \<^verbatim>\<open>self.key_press\<close>, which the class does not define
  (its method is \<^verbatim>\<open>press_key\<close>), so on every page each of the three calls ends in the
  outer handler with \<^verbatim>\<open>modal_close_failed\<close> and no operation on the page. The last
  conjunct is what \<^verbatim>\<open>press_key\<close> itself does with Escape on a page that accepts it.
\<close>

theorem close_modal_escape_fails:
  "close_modal p None = (error_reason ''modal_close_failed'' (attribute_error ''key_press''), [])
   \<and> close_modal p (Some \<lparr>cs_type = Some ''esc'', cs_strategy = None, cs_args = None\<rparr>)
       = (error_reason ''modal_close_failed'' (attribute_error ''key_press''), [])
   \<and> close_modal p (Some \<lparr>cs_type = Some ''button'', cs_strategy = None, cs_args = None\<rparr>)
       = (error_reason ''modal_close_failed'' (attribute_error ''key_press''), [])
   \<and> press_key quiet_page ''Escape'' [] [] = (ok_result, [PagePress ''body'' ''Escape''])"
  by (simp add: close_modal_def key_press_is_no_attribute modal_close_failed_def
      attribute_error_short truthy_def press_key_def quiet_page_def)

subsection \<open>The retry loop of the LLM client\<close>

lemma rate_limited_run:
  assumes "attempt st < max_retries"
  shows "call_with_retry_loop m uh (replicate n (Reply 429 b) @ Reply 200 (Some (c # cs)) # rest) st
         = (Returned (Some (response_text_of c)),
            st\<lparr>sent := sent st @ replicate (Suc n) (build_payload_messages (conversation_history st) m uh),
               sleeps := sleeps st @ replicate n 10,
               conversation_history :=
                 (if uh \<and> response_text_of c \<noteq> []
                  then conversation_history st @ [Message ''assistant'' (response_text_of c)]
                  else conversation_history st)\<rparr>)"
  using assms
proof (induction n arbitrary: st)
  case 0
  then show ?case by (simp add: Let_def)
next
  case (Suc n)
  let ?st' = "st\<lparr>sent := sent st @ [build_payload_messages (conversation_history st) m uh],
                 sleeps := sleeps st @ [10]\<rparr>"
  have "attempt ?st' < max_retries" using Suc.prems by simp
  from Suc.IH [OF this] show ?case
    using Suc.prems by (simp add: Let_def replicate_append_same)
qed

lemma three_connection_failures:
  "call_with_retry hist m uh (ConnectionFailed # ConnectionFailed # ConnectionFailed # rest)
   = (Raised ConnectionError,
      \<lparr>attempt = 3, conversation_history = hist, sleeps = [1, 2],
       sent = replicate 3 (build_payload_messages hist m uh)\<rparr>)"
  by (simp add: call_with_retry_def max_retries_def retry_delay_base_def Let_def numeral_3_eq_3)

lemma backoff_invariant:
  assumes "attempt st \<le> max_retries"
    and "filter (\<lambda>t. t \<noteq> 10) (sleeps st) = take (attempt st) [1, 2]"
    and "call_with_retry_loop m uh replies st = (out, st')"
  shows "attempt st' \<le> max_retries
         \<and> filter (\<lambda>t. t \<noteq> 10) (sleeps st') = take (attempt st') [1, 2]"
  using assms
proof (induction replies arbitrary: st)
  case Nil
  then show ?case by (auto split: if_splits)
next
  case (Cons r rs)
  show ?case
  proof (cases "attempt st < max_retries")
    case False
    with Cons.prems show ?thesis by auto
  next
    case True
    show ?thesis
    proof (cases r)
      case ConnectionFailed
      show ?thesis
      proof (cases "attempt st + 1 < max_retries")
        case False
        with True have "attempt st = 2" by (simp add: max_retries_def)
        with Cons.prems ConnectionFailed show ?thesis
          by (auto simp: Let_def max_retries_def)
      next
        case lt: True
        let ?st2 = "st\<lparr>sent := sent st @ [build_payload_messages (conversation_history st) m uh],
                       attempt := attempt st + 1,
                       sleeps := sleeps st @ [retry_delay_base * 2 ^ attempt st]\<rparr>"
        have run: "call_with_retry_loop m uh rs ?st2 = (out, st')"
          using Cons.prems(3) True lt ConnectionFailed by (simp add: Let_def)
        have k: "attempt st = 0 \<or> attempt st = 1" using lt by (auto simp: max_retries_def)
        have inv: "filter (\<lambda>t. t \<noteq> 10) (sleeps ?st2) = take (attempt ?st2) [1, 2]"
          using k Cons.prems(2) by (auto simp: retry_delay_base_def)
        have le: "attempt ?st2 \<le> max_retries" using lt by simp
        from Cons.IH [OF le inv run] show ?thesis .
      qed
    next
      case (Reply status choices)
      show ?thesis
      proof (cases "status = 429")
        case s429: True
        let ?st1 = "st\<lparr>sent := sent st @ [build_payload_messages (conversation_history st) m uh],
                       sleeps := sleeps st @ [10]\<rparr>"
        have run: "call_with_retry_loop m uh rs ?st1 = (out, st')"
          using Cons.prems(3) True s429 Reply by (simp add: Let_def)
        have inv: "filter (\<lambda>t. t \<noteq> 10) (sleeps ?st1) = take (attempt ?st1) [1, 2]"
          using Cons.prems(2) by simp
        have le: "attempt ?st1 \<le> max_retries" using Cons.prems(1) by simp
        from Cons.IH [OF le inv run] show ?thesis .
      next
        case False
        with Cons.prems True Reply show ?thesis
          by (auto simp: Let_def split: if_splits option.splits list.splits)
      qed
    qed
  qed
qed


text \<open>
  C7 (as amended). In \<^verbatim>\<open>_call_with_retry\<close>, any number of 429 replies followed by a
  well-formed 200 reply ends in the reply's text, after one 10-second sleep per 429 and with
  the attempt counter still at zero. Three connection errors in a row end the call with the
  error, after a 1-second and a 2-second sleep and three requests. In every run the
  attempt counter stays within 3, and the sleeps other than the 10-second ones are the
  first \<open>attempt\<close> entries of the schedule 1, 2: the doubling never reaches 4 seconds,
  since the third failure re-raises instead of sleeping.
\<close>

theorem rate_limit_keeps_retry_budget:
  "call_with_retry hist m uh (replicate n (Reply 429 b) @ Reply 200 (Some (c # cs)) # rest)
     = (Returned (Some (response_text_of c)),
        \<lparr>attempt = 0,
         conversation_history = (if uh \<and> response_text_of c \<noteq> []
                                 then hist @ [Message ''assistant'' (response_text_of c)] else hist),
         sleeps = replicate n 10,
         sent = replicate (Suc n) (build_payload_messages hist m uh)\<rparr>)
   \<and> call_with_retry hist m uh (ConnectionFailed # ConnectionFailed # ConnectionFailed # rest)
       = (Raised ConnectionError,
          \<lparr>attempt = 3, conversation_history = hist, sleeps = [1, 2],
           sent = replicate 3 (build_payload_messages hist m uh)\<rparr>)
   \<and> attempt (snd (call_with_retry hist m uh replies)) \<le> 3
   \<and> filter (\<lambda>t. t \<noteq> 10) (sleeps (snd (call_with_retry hist m uh replies)))
       = take (attempt (snd (call_with_retry hist m uh replies))) [1, 2]"
proof -
  let ?st0 = "\<lparr>attempt = 0, conversation_history = hist, sleeps = [], sent = []\<rparr>"
  have a0: "attempt ?st0 < max_retries" by (simp add: max_retries_def)
  have a: "call_with_retry hist m uh (replicate n (Reply 429 b) @ Reply 200 (Some (c # cs)) # rest)
     = (Returned (Some (response_text_of c)),
        \<lparr>attempt = 0,
         conversation_history = (if uh \<and> response_text_of c \<noteq> []
                                 then hist @ [Message ''assistant'' (response_text_of c)] else hist),
         sleeps = replicate n 10,
         sent = replicate (Suc n) (build_payload_messages hist m uh)\<rparr>)"
    unfolding call_with_retry_def rate_limited_run [OF a0] by simp
  obtain out st' where run: "call_with_retry_loop m uh replies ?st0 = (out, st')"
    by (cases "call_with_retry_loop m uh replies ?st0") auto
  have "attempt ?st0 \<le> max_retries"
    and "filter (\<lambda>t. t \<noteq> 10) (sleeps ?st0) = take (attempt ?st0) [1, 2]"
    by simp_all
  from backoff_invariant [OF this run]
  have c: "attempt (snd (call_with_retry hist m uh replies)) \<le> 3
           \<and> filter (\<lambda>t. t \<noteq> 10) (sleeps (snd (call_with_retry hist m uh replies)))
               = take (attempt (snd (call_with_retry hist m uh replies))) [1, 2]"
    by (simp add: call_with_retry_def run max_retries_def)
  from a three_connection_failures [of hist m uh rest] c show ?thesis by blast
qed

theorem rate_limit_keeps_retry_budget_witness:
  "call_with_retry [] ''hi'' False
     [Reply 429 None, Reply 429 None, Reply 200 (Some [ChoiceMessage (Some ''ok'')])]
   = (Returned (Some ''ok''),
      \<lparr>attempt = 0, conversation_history = [], sleeps = [10, 10],
       sent = [[Message ''user'' ''hi''], [Message ''user'' ''hi''], [Message ''user'' ''hi'']]\<rparr>)"
  using rate_limit_keeps_retry_budget
    [of "[]" "''hi''" False 2 None "ChoiceMessage (Some ''ok'')" "[]" "[]" "[]"]
  by (simp add: response_text_of_def or_empty_def build_payload_messages_def numeral_2_eq_2
      numeral_3_eq_3)

text \<open>
  The claim as stated has a 4-second back-off among the sleeps between the three attempts.
  With a transport that fails on every request the sleeps are 1 and 2 seconds and the third
  failure is raised.
\<close>

theorem backoff_four_seconds_counterexample:
  "fst (call_with_retry [] ''hi'' False [ConnectionFailed, ConnectionFailed, ConnectionFailed])
     = Raised ConnectionError
   \<and> sleeps (snd (call_with_retry [] ''hi'' False
                    [ConnectionFailed, ConnectionFailed, ConnectionFailed])) = [1, 2]
   \<and> 4 \<notin> set (sleeps (snd (call_with_retry [] ''hi'' False
                              [ConnectionFailed, ConnectionFailed, ConnectionFailed])))"
  by (simp add: three_connection_failures)

subsection \<open>Growth of the conversation history\<close>





subsection \<open>Clicking when several elements match\<close>













subsection \<open>Decisions with an unknown action\<close>








subsection \<open>The repeated-decision block\<close>

lemma state_at_decision_simps:
  "current_task (state_at_decision s fp) = current_task s"
  "iteration_count (state_at_decision s fp) = iteration_count s + 1"
  "max_iterations (state_at_decision s fp) = max_iterations s"
  "previous_page_state (state_at_decision s fp) = Some fp"
  "page_state_unchanged_count (state_at_decision s fp)
   = (case previous_page_state s of
        None \<Rightarrow> page_state_unchanged_count s
      | Some prev \<Rightarrow> if fp \<noteq> prev then 0 else page_state_unchanged_count s + 1)"
  "error_history (state_at_decision s fp) = error_history s"
  "last_error (state_at_decision s fp) = last_error s"
  "failed_actions (state_at_decision s fp) = failed_actions s"
  by (simp_all add: state_at_decision_def observe_page_def has_page_changed_def
      split: option.splits)

lemma click_buy_fields:
  "decision_action click_buy = ''click''" "decision_strategy click_buy = ''text''"
  "decision_args click_buy = [(''text'', ''Buy'')]"
  by (simp_all add: decision_action_def decision_strategy_def decision_args_def click_buy_def
      py_lower_def lower_char_def py_strip_def is_space_def or_empty_def)

lemma click_buy_not_found:
  "click quiet_page ''text'' [(''text'', ''Buy'')] False = (error_result ''element_not_found'', [])"
  by (simp add: click_def build_locator_from_strategy_def args_get_def Let_def quiet_page_def)

lemma click_buy_unblocked:
  assumes "page_state_unchanged_count s = 0" and "\<not> is_risky (current_task s)"
  shows "execute_decision empty_world s (Inr click_buy)
         = (action_error ''element_not_found'', [ExecClick ''text'' [(''text'', ''Buy'')] False])"
  using assms
  by (simp add: execute_decision_def Let_def click_buy_fields dispatch_def empty_world_def
      click_buy_not_found args_get_def starts_with_def finish_def error_result_def truthy_def
      or_empty_def)

lemma state_at_first_decision:
  "state_at_decision (initial_state plain_task 50) ''fp1''
   = \<lparr>current_task = plain_task, iteration_count = 1, max_iterations = 50,
      previous_page_state = Some ''fp1'', page_state_unchanged_count = 0,
      error_history = [], last_error = None, failed_actions = []\<rparr>"
  by (simp add: state_at_decision_def observe_page_def has_page_changed_def initial_state_def)

lemma first_run_decision:
  "run_decision (state_at_decision (initial_state plain_task 50) ''fp1'') (Inr click_buy) empty_world
   = action_error ''element_not_found''"
proof -
  let ?s2 = "state_at_decision (initial_state plain_task 50) ''fp1''"
  have "page_state_unchanged_count ?s2 = 0"
    by (simp add: state_at_decision_simps initial_state_def)
  moreover have "\<not> is_risky (current_task ?s2)"
    by (simp add: state_at_decision_simps initial_state_def plain_task_def)
  ultimately show ?thesis
    unfolding run_decision_def by (simp add: click_buy_unblocked)
qed

lemma handle_first_failure:
  "handle_result
     \<lparr>current_task = plain_task, iteration_count = 1, max_iterations = 50,
      previous_page_state = Some ''fp1'', page_state_unchanged_count = 0,
      error_history = [], last_error = None, failed_actions = []\<rparr>
     (Inr click_buy) (action_error ''element_not_found'')
   = (None, after_failed_click)"
  by (simp add: handle_result_def record_attempt_def action_error_def
      empty_action_result_def truthy_def handle_error_def record_failure_def Let_def
      max_unchanged_threshold_def consecutive_error_threshold_def push_error_def
      max_error_history_def consecutive_same_errors_def after_failed_click_def
      click_buy_def or_empty_def)

lemma first_pass_fails:
  "iterate run_decision (initial_state plain_task 50) [Decision ''fp1'' (Inr click_buy) empty_world]
   = (None, after_failed_click)"
proof -
  let ?s2 = "state_at_decision (initial_state plain_task 50) ''fp1''"
  have "iteration run_decision (initial_state plain_task 50) (Decision ''fp1'' (Inr click_buy) empty_world)
        = handle_result ?s2 (Inr click_buy) (run_decision ?s2 (Inr click_buy) empty_world)"
    by (simp add: iteration_def Let_def)
  also have "\<dots> = handle_result ?s2 (Inr click_buy) (action_error ''element_not_found'')"
    by (simp only: first_run_decision)
  also have "\<dots> = (None, after_failed_click)"
    by (simp only: state_at_first_decision handle_first_failure)
  finally have it: "iteration run_decision (initial_state plain_task 50)
                      (Decision ''fp1'' (Inr click_buy) empty_world) = (None, after_failed_click)" .
  have budget: "iteration_count (initial_state plain_task 50) < max_iterations (initial_state plain_task 50)"
    by (simp add: initial_state_def)
  have "iteration_count after_failed_click < max_iterations after_failed_click"
    by (simp add: after_failed_click_def)
  then show ?thesis
    by (simp only: iterate.simps budget it) simp
qed




subsection \<open>Circuit breaker B\<close>

lemma record_attempt_keeps:
  "error_history (record_attempt s p a) = error_history s"
  "page_state_unchanged_count (record_attempt s p a) = page_state_unchanged_count s"
  "iteration_count (record_attempt s p a) = iteration_count s"
  "max_iterations (record_attempt s p a) = max_iterations s"
  "previous_page_state (record_attempt s p a) = previous_page_state s"
  by (simp_all add: record_attempt_def split: sum.splits)

lemma record_failure_keeps:
  "error_history (record_failure s a e) = error_history s"
  "page_state_unchanged_count (record_failure s a e) = page_state_unchanged_count s"
  "iteration_count (record_failure s a e) = iteration_count s"
  "max_iterations (record_failure s a e) = max_iterations s"
  "previous_page_state (record_failure s a e) = previous_page_state s"
  by (simp_all add: record_failure_def split: option.splits)

lemma handle_error_cases:
  assumes "handle_error s a e = (r, s')"
  shows "(r \<noteq> None \<longrightarrow> tr_status (the r) = Stuck)
         \<and> (r = None \<longrightarrow>
               page_state_unchanged_count s < 2
               \<and> error_history s' = push_error (error_history s) e
               \<and> consecutive_same_errors (error_history s') e < 3
               \<and> iteration_count s' = iteration_count s
               \<and> max_iterations s' = max_iterations s
               \<and> previous_page_state s' = previous_page_state s
               \<and> page_state_unchanged_count s' = page_state_unchanged_count s)"
  using assms
  by (auto simp: handle_error_def Let_def record_failure_keeps consecutive_error_threshold_def
      max_unchanged_threshold_def split: if_splits)

lemma handle_error_continues:
  assumes "page_state_unchanged_count s < 2"
    and "consecutive_same_errors (push_error (error_history s) e) e < 3"
  shows "handle_error s a e
         = (None, (record_failure s a e)\<lparr>error_history := push_error (error_history s) e\<rparr>)"
  using assms
  by (simp add: handle_error_def Let_def record_failure_keeps consecutive_error_threshold_def
      max_unchanged_threshold_def)

lemma failed_pass:
  assumes "fails_with a e"
  shows "iteration returned s (Decision f p a)
         = handle_error (record_attempt (state_at_decision s f) p a) a e"
  using assms
  by (simp add: iteration_def returned_def handle_result_def Let_def fails_with_def truthy_def
      or_empty_def)

lemma failed_pass_cases:
  assumes "fails_with a e" and "iteration returned s (Decision f p a) = (r, s')"
  shows "(r \<noteq> None \<longrightarrow> tr_status (the r) = Stuck)
         \<and> (r = None \<longrightarrow>
               error_history s' = push_error (error_history s) e
               \<and> consecutive_same_errors (error_history s') e < 3
               \<and> iteration_count s' = iteration_count s + 1
               \<and> max_iterations s' = max_iterations s)"
proof -
  have "handle_error (record_attempt (state_at_decision s f) p a) a e = (r, s')"
    using assms by (simp add: failed_pass)
  from handle_error_cases [OF this] show ?thesis
    by (auto simp: record_attempt_keeps state_at_decision_simps)
qed

lemma push_keeps_suffix:
  assumes "length es < 5"
  shows "\<exists>pre. push_error (pre0 @ es) e = pre @ es @ [e]"
proof (cases "length (pre0 @ es @ [e]) > max_error_history")
  case False
  then show ?thesis by (auto simp: push_error_def Let_def)
next
  case True
  with assms have "pre0 \<noteq> []" by (auto simp: max_error_history_def)
  then have "tl (pre0 @ es @ [e]) = tl pre0 @ es @ [e]" by simp
  with True show ?thesis by (auto simp: push_error_def Let_def)
qed

lemma three_pushes:
  "\<exists>pre. push_error (push_error (push_error h e1) e2) e3 = pre @ [e1, e2, e3]"
proof -
  from push_keeps_suffix [of "[]" h e1] obtain p1 where 1: "push_error h e1 = p1 @ [e1]" by auto
  from push_keeps_suffix [of "[e1]" p1 e2] obtain p2
    where 2: "push_error (p1 @ [e1]) e2 = p2 @ [e1, e2]" by auto
  from push_keeps_suffix [of "[e1, e2]" p2 e3] obtain p3
    where 3: "push_error (p2 @ [e1, e2]) e3 = p3 @ [e1, e2, e3]" by auto
  from 1 2 3 show ?thesis by simp
qed

lemma same_error_thrice:
  "consecutive_error_threshold \<le> consecutive_same_errors (push_error (push_error (push_error h e) e) e) e"
proof -
  from three_pushes [of h e e e] obtain pre
    where "push_error (push_error (push_error h e) e) e = pre @ [e, e, e]" by blast
  then show ?thesis
    by (simp add: consecutive_same_errors_def consecutive_error_threshold_def)
qed

lemma same_error_interleaved:
  assumes "e' \<noteq> e"
  shows "consecutive_same_errors (push_error (push_error (push_error h e) e') e) e = 1"
proof -
  from three_pushes [of h e e' e] obtain pre
    where "push_error (push_error (push_error h e) e') e = pre @ [e, e', e]" by blast
  with assms show ?thesis
    by (simp add: consecutive_same_errors_def)
qed

lemma three_failures_stick:
  assumes f: "fails_with a1 e" "fails_with a2 e" "fails_with a3 e"
    and budget: "iteration_count s + 3 \<le> max_iterations s"
  shows "\<exists>r s'. iterate returned s (Decision f1 p1 a1 # Decision f2 p2 a2 # Decision f3 p3 a3 # rest)
                  = (Some r, s') \<and> tr_status r = Stuck"
proof -
  obtain r1 s1 where i1: "iteration returned s (Decision f1 p1 a1) = (r1, s1)"
    by (cases "iteration returned s (Decision f1 p1 a1)") auto
  note c1 = failed_pass_cases [OF f(1) i1]
  have b0: "iteration_count s < max_iterations s" using budget by simp
  show ?thesis
  proof (cases r1)
    case (Some x)
    with c1 i1 b0 show ?thesis by simp
  next
    case None
    with c1 have h1: "error_history s1 = push_error (error_history s) e"
      and n1: "iteration_count s1 = iteration_count s + 1" "max_iterations s1 = max_iterations s"
      by simp_all
    have b1: "iteration_count s1 < max_iterations s1" using budget n1 by simp
    obtain r2 s2 where i2: "iteration returned s1 (Decision f2 p2 a2) = (r2, s2)"
      by (cases "iteration returned s1 (Decision f2 p2 a2)") auto
    note c2 = failed_pass_cases [OF f(2) i2]
    show ?thesis
    proof (cases r2)
      case (Some x)
      with c2 i1 i2 b0 b1 None show ?thesis by simp
    next
      case n2: None
      with c2 have h2: "error_history s2 = push_error (error_history s1) e"
        and m2: "iteration_count s2 = iteration_count s1 + 1" "max_iterations s2 = max_iterations s1"
        by simp_all
      have b2: "iteration_count s2 < max_iterations s2" using budget n1 m2 by simp
      obtain r3 s3 where i3: "iteration returned s2 (Decision f3 p3 a3) = (r3, s3)"
        by (cases "iteration returned s2 (Decision f3 p3 a3)") auto
      note c3 = failed_pass_cases [OF f(3) i3]
      show ?thesis
      proof (cases r3)
        case (Some x)
        with c3 i1 i2 i3 b0 b1 b2 None n2 show ?thesis by simp
      next
        case n3: None
        with c3 have "error_history s3 = push_error (error_history s2) e"
          and "consecutive_same_errors (error_history s3) e < 3" by auto
        with h1 h2 same_error_thrice [of "error_history s" e] show ?thesis
          by (simp add: consecutive_error_threshold_def)
      qed
    qed
  qed
qed

lemma changed_page_pass:
  assumes "fails_with a e" and "previous_page_state s \<noteq> Some f"
    and "page_state_unchanged_count s = 0"
    and "consecutive_same_errors (push_error (error_history s) e) e < 3"
  shows "\<exists>s'. iteration returned s (Decision f p a) = (None, s')
              \<and> error_history s' = push_error (error_history s) e
              \<and> previous_page_state s' = Some f \<and> page_state_unchanged_count s' = 0
              \<and> iteration_count s' = iteration_count s + 1
              \<and> max_iterations s' = max_iterations s"
proof -
  let ?s1 = "record_attempt (state_at_decision s f) p a"
  have c: "page_state_unchanged_count ?s1 = 0"
    using assms(2,3) by (auto simp: record_attempt_keeps state_at_decision_simps split: option.splits)
  have h: "error_history ?s1 = error_history s"
    by (simp add: record_attempt_keeps state_at_decision_simps)
  have "handle_error ?s1 a e
        = (None, (record_failure ?s1 a e)\<lparr>error_history := push_error (error_history ?s1) e\<rparr>)"
    using c assms(4) h by (intro handle_error_continues) simp_all
  then show ?thesis
    using c h by (simp add: failed_pass [OF assms(1)] record_failure_keeps record_attempt_keeps
        state_at_decision_simps)
qed

lemma interleaved_failures_continue:
  assumes f: "fails_with a1 e" "fails_with a2 e'" "fails_with a3 e" and ne: "e' \<noteq> e"
    and start: "error_history s = []" "page_state_unchanged_count s = 0"
    and fps: "previous_page_state s \<noteq> Some f1" "f1 \<noteq> f2" "f2 \<noteq> f3"
    and budget: "iteration_count s + 3 < max_iterations s"
  shows "fst (iterate returned s [Decision f1 p1 a1, Decision f2 p2 a2, Decision f3 p3 a3]) = None
         \<and> error_history (snd (iterate returned s
                                  [Decision f1 p1 a1, Decision f2 p2 a2, Decision f3 p3 a3]))
             = [e, e', e]"
proof -
  have p1: "push_error [] e = [e]" "push_error [e] e' = [e, e']" "push_error [e, e'] e = [e, e', e]"
    by (simp_all add: push_error_def max_error_history_def)
  have "consecutive_same_errors (push_error (error_history s) e) e < 3"
    by (simp add: start p1 consecutive_same_errors_def)
  from changed_page_pass [OF f(1) fps(1) start(2) this, of p1] obtain s1
    where 1: "iteration returned s (Decision f1 p1 a1) = (None, s1)"
      "error_history s1 = [e]" "previous_page_state s1 = Some f1"
      "page_state_unchanged_count s1 = 0" "iteration_count s1 = iteration_count s + 1"
      "max_iterations s1 = max_iterations s"
    by (auto simp: start p1)
  have "consecutive_same_errors (push_error (error_history s1) e') e' < 3"
    using ne by (simp add: 1 p1 consecutive_same_errors_def)
  moreover have "previous_page_state s1 \<noteq> Some f2" using 1 fps by simp
  ultimately obtain s2
    where 2: "iteration returned s1 (Decision f2 p2 a2) = (None, s2)"
      "error_history s2 = [e, e']" "previous_page_state s2 = Some f2"
      "page_state_unchanged_count s2 = 0" "iteration_count s2 = iteration_count s1 + 1"
      "max_iterations s2 = max_iterations s1"
    using changed_page_pass [OF f(2) _ 1(4), of f2 p2] by (auto simp: 1 p1)
  have "consecutive_same_errors (push_error (error_history s2) e) e < 3"
    using ne by (simp add: 2 p1 consecutive_same_errors_def)
  moreover have "previous_page_state s2 \<noteq> Some f3" using 2 fps by simp
  ultimately obtain s3
    where 3: "iteration returned s2 (Decision f3 p3 a3) = (None, s3)"
      "error_history s3 = [e, e', e]" "iteration_count s3 = iteration_count s2 + 1"
      "max_iterations s3 = max_iterations s2"
    using changed_page_pass [OF f(3) _ 2(4), of f3 p3] by (auto simp: 2 p1)
  have "iteration_count s < max_iterations s" "iteration_count s1 < max_iterations s1"
    "iteration_count s2 < max_iterations s2" "iteration_count s3 < max_iterations s3"
    using budget 1 2 3 by simp_all
  then show ?thesis using 1(1) 2(1) 3(1) 3(2) by simp
qed

lemma success_clears_errors_only:
  assumes "\<not> truthy (ar_error a)" and "\<not> ar_task_complete a" and "\<not> truthy (ar_user_input a)"
  shows "fst (handle_result s p a) = None
         \<and> error_history (snd (handle_result s p a)) = []
         \<and> page_state_unchanged_count (snd (handle_result s p a)) = page_state_unchanged_count s"
  using assms by (simp add: handle_result_def Let_def record_attempt_keeps)

lemma tripping_pass:
  assumes "fails_with a e" and "previous_page_state s \<noteq> Some f"
    and "page_state_unchanged_count s = 0"
    and "3 \<le> consecutive_same_errors (push_error (error_history s) e) e"
  shows "fst (iteration returned s (Decision f p a))
         = Some \<lparr>tr_status = Stuck, tr_iterations = Some (iteration_count s + 1),
                 tr_last_error = Some e, tr_summary = None\<rparr>"
proof -
  let ?s1 = "record_attempt (state_at_decision s f) p a"
  have c: "page_state_unchanged_count ?s1 = 0"
    using assms(2,3) by (auto simp: record_attempt_keeps state_at_decision_simps split: option.splits)
  have h: "error_history ?s1 = error_history s" "iteration_count ?s1 = iteration_count s + 1"
    by (simp_all add: record_attempt_keeps state_at_decision_simps)
  show ?thesis
    using c h assms(4)
    by (simp add: failed_pass [OF assms(1)] handle_error_def Let_def record_failure_keeps
        max_unchanged_threshold_def consecutive_error_threshold_def)
qed

lemma same_failures_trip_B:
  assumes f: "fails_with a1 e" "fails_with a2 e" "fails_with a3 e"
    and start: "error_history s = []" "page_state_unchanged_count s = 0"
    and fps: "previous_page_state s \<noteq> Some f1" "f1 \<noteq> f2" "f2 \<noteq> f3"
    and budget: "iteration_count s + 3 \<le> max_iterations s"
  shows "fst (iterate returned s (Decision f1 p1 a1 # Decision f2 p2 a2 # Decision f3 p3 a3 # rest))
         = Some \<lparr>tr_status = Stuck, tr_iterations = Some (iteration_count s + 3),
                 tr_last_error = Some e, tr_summary = None\<rparr>"
proof -
  have p1: "push_error [] e = [e]" "push_error [e] e = [e, e]" "push_error [e, e] e = [e, e, e]"
    by (simp_all add: push_error_def max_error_history_def)
  have "consecutive_same_errors (push_error (error_history s) e) e < 3"
    by (simp add: start p1 consecutive_same_errors_def)
  from changed_page_pass [OF f(1) fps(1) start(2) this, of p1] obtain s1
    where 1: "iteration returned s (Decision f1 p1 a1) = (None, s1)"
      "error_history s1 = [e]" "previous_page_state s1 = Some f1"
      "page_state_unchanged_count s1 = 0" "iteration_count s1 = iteration_count s + 1"
      "max_iterations s1 = max_iterations s"
    by (auto simp: start p1)
  have "consecutive_same_errors (push_error (error_history s1) e) e < 3"
    by (simp add: 1 p1 consecutive_same_errors_def)
  moreover have "previous_page_state s1 \<noteq> Some f2" using 1 fps by simp
  ultimately obtain s2
    where 2: "iteration returned s1 (Decision f2 p2 a2) = (None, s2)"
      "error_history s2 = [e, e]" "previous_page_state s2 = Some f2"
      "page_state_unchanged_count s2 = 0" "iteration_count s2 = iteration_count s1 + 1"
      "max_iterations s2 = max_iterations s1"
    using changed_page_pass [OF f(2) _ 1(4), of f2 p2] by (auto simp: 1 p1)
  have "3 \<le> consecutive_same_errors (push_error (error_history s2) e) e"
    by (simp add: 2 p1 consecutive_same_errors_def)
  moreover have "previous_page_state s2 \<noteq> Some f3" using 2 fps by simp
  ultimately have 3: "fst (iteration returned s2 (Decision f3 p3 a3))
         = Some \<lparr>tr_status = Stuck, tr_iterations = Some (iteration_count s2 + 1),
                 tr_last_error = Some e, tr_summary = None\<rparr>"
    using tripping_pass [OF f(3) _ 2(4)] by blast
  have "iteration_count s < max_iterations s" "iteration_count s1 < max_iterations s1"
    "iteration_count s2 < max_iterations s2"
    using budget 1 2 by simp_all
  then show ?thesis
    using 1(1) 2(1) 3 1(5) 2(5)
    by (cases "iteration returned s2 (Decision f3 p3 a3)") (auto split: option.splits)
qed

text \<open>
  C8. In the loop, three passes in a row whose decisions fail with the same error message
  end the run with status stuck, whatever the earlier error history and the page
  fingerprints are (first conjunct); when the page changes from pass to pass, so that
  breaker A stays out of the way, it is breaker B that ends the run, at the third pass and
  with that message as the last error (second); three entries of the same message at the
  end of the history always reach the threshold (third). The same message twice with a
  different one in between does not trip the breaker: the run of equal entries is 1, and
  the loop goes on after the third pass (fourth and fifth). A result that is neither an
  error, nor a completion, nor a user input clears the error history and leaves the
  unchanged-page counter as it is (sixth).
\<close>

theorem circuit_breaker_B:
  "(fails_with a1 e \<and> fails_with a2 e \<and> fails_with a3 e
      \<and> iteration_count s + 3 \<le> max_iterations s \<longrightarrow>
      (\<exists>r s'. iterate returned s (Decision f1 p1 a1 # Decision f2 p2 a2 # Decision f3 p3 a3 # rest)
                = (Some r, s') \<and> tr_status r = Stuck))
   \<and> (fails_with a1 e \<and> fails_with a2 e \<and> fails_with a3 e
        \<and> error_history s = [] \<and> page_state_unchanged_count s = 0
        \<and> previous_page_state s \<noteq> Some f1 \<and> f1 \<noteq> f2 \<and> f2 \<noteq> f3
        \<and> iteration_count s + 3 \<le> max_iterations s \<longrightarrow>
        fst (iterate returned s (Decision f1 p1 a1 # Decision f2 p2 a2 # Decision f3 p3 a3 # rest))
        = Some \<lparr>tr_status = Stuck, tr_iterations = Some (iteration_count s + 3),
                tr_last_error = Some e, tr_summary = None\<rparr>)
   \<and> consecutive_error_threshold
       \<le> consecutive_same_errors (push_error (push_error (push_error h e) e) e) e
   \<and> (e' \<noteq> e \<longrightarrow>
        consecutive_same_errors (push_error (push_error (push_error h e) e') e) e = 1)
   \<and> (fails_with a1 e \<and> fails_with a2 e' \<and> fails_with a3 e \<and> e' \<noteq> e
        \<and> error_history s = [] \<and> page_state_unchanged_count s = 0
        \<and> previous_page_state s \<noteq> Some f1 \<and> f1 \<noteq> f2 \<and> f2 \<noteq> f3
        \<and> iteration_count s + 3 < max_iterations s \<longrightarrow>
        fst (iterate returned s [Decision f1 p1 a1, Decision f2 p2 a2, Decision f3 p3 a3]) = None
        \<and> error_history (snd (iterate returned s
                                 [Decision f1 p1 a1, Decision f2 p2 a2, Decision f3 p3 a3]))
            = [e, e', e])
   \<and> (\<not> truthy (ar_error a) \<and> \<not> ar_task_complete a \<and> \<not> truthy (ar_user_input a) \<longrightarrow>
        fst (handle_result s p a) = None
        \<and> error_history (snd (handle_result s p a)) = []
        \<and> page_state_unchanged_count (snd (handle_result s p a)) = page_state_unchanged_count s)"
  using three_failures_stick [of a1 e a2 a3 s f1 p1 f2 p2 f3 p3 rest]
    same_failures_trip_B [of a1 e a2 a3 s f1 f2 f3 p1 p2 p3 rest]
    same_error_thrice [of h e] same_error_interleaved [of e' e h]
    interleaved_failures_continue [of a1 e a2 e' a3 s f1 f2 f3 p1 p2 p3]
    success_clears_errors_only [of a s p]
  by blast

lemma boom_fails: "fails_with (action_error ''boom'') ''boom''"
  by (simp add: fails_with_def action_error_def empty_action_result_def truthy_def)

theorem circuit_breaker_B_witness:
  "fst (iterate returned (initial_state plain_task 50)
          [Decision ''fp1'' (Inl ''bad'') (action_error ''boom''),
           Decision ''fp2'' (Inl ''bad'') (action_error ''boom''),
           Decision ''fp3'' (Inl ''bad'') (action_error ''boom'')])
   = Some \<lparr>tr_status = Stuck, tr_iterations = Some 3, tr_last_error = Some ''boom'',
           tr_summary = None\<rparr>"
proof -
  have "error_history (initial_state plain_task 50) = []"
    "page_state_unchanged_count (initial_state plain_task 50) = 0"
    "previous_page_state (initial_state plain_task 50) \<noteq> Some ''fp1''"
    "iteration_count (initial_state plain_task 50) + 3 \<le> max_iterations (initial_state plain_task 50)"
    "iteration_count (initial_state plain_task 50) = 0"
    by (simp_all add: initial_state_def)
  moreover have "''fp1'' \<noteq> ''fp2''" "''fp2'' \<noteq> ''fp3''" by simp_all
  ultimately show ?thesis
    using boom_fails
      circuit_breaker_B [of "action_error ''boom''" "''boom''" "action_error ''boom''"
        "action_error ''boom''" "initial_state plain_task 50" "''fp1''" "Inl ''bad''" "''fp2''"
        "Inl ''bad''" "''fp3''" "Inl ''bad''" "[]"]
    by simp
qed

subsection \<open>Run state across tasks\<close>

lemma loop_entry_state:
  "snd (execute_task exec s (Started t) [])
   = s\<lparr>current_task := t, iteration_count := 0, error_history := [], last_error := None\<rparr>"
  by (simp add: execute_task_def execute_iteratively_def)

lemma first_task_completes:
  "execute_task run_decision (initial_state plain_task 50) (Started plain_task)
     [Decision ''fp1'' (Inr click_buy) empty_world, AlreadyComplete ''fp1'' None]
   = (Some \<lparr>tr_status = Completed, tr_iterations = Some 2, tr_last_error = None,
             tr_summary = None\<rparr>, after_first_task)"
proof -
  have s0: "(initial_state plain_task 50)\<lparr>current_task := plain_task, iteration_count := 0,
              error_history := [], last_error := None\<rparr> = initial_state plain_task 50"
    by (simp add: initial_state_def)
  have it1: "iteration run_decision (initial_state plain_task 50)
               (Decision ''fp1'' (Inr click_buy) empty_world) = (None, after_failed_click)"
    using first_pass_fails
    by (simp add: initial_state_def split: prod.splits option.splits if_splits)
  have it2: "iteration run_decision after_failed_click (AlreadyComplete ''fp1'' None)
             = (Some \<lparr>tr_status = Completed, tr_iterations = Some 2, tr_last_error = None,
                       tr_summary = None\<rparr>, after_first_task)"
    by (simp add: iteration_def Let_def observe_page_def has_page_changed_def
        after_failed_click_def after_first_task_def)
  have b: "iteration_count (initial_state plain_task 50) < max_iterations (initial_state plain_task 50)"
    "iteration_count after_failed_click < max_iterations after_failed_click"
    by (simp_all add: initial_state_def after_failed_click_def)
  show ?thesis
    unfolding execute_task_def execute_iteratively_def startup.case s0
    using b it1 it2 by simp
qed

lemma second_task_state:
  "state_at_decision
     (after_first_task\<lparr>current_task := plain_task, iteration_count := 0,
                        error_history := [], last_error := None\<rparr>) ''fp1''
   = after_first_task\<lparr>iteration_count := 1, page_state_unchanged_count := 2,
                       error_history := []\<rparr>"
  by (simp add: state_at_decision_def observe_page_def has_page_changed_def
      after_first_task_def after_failed_click_def)

lemma second_task_blocked:
  "execute_decision empty_world
     (after_first_task\<lparr>iteration_count := 1, page_state_unchanged_count := 2, error_history := []\<rparr>)
     (Inr click_buy)
   = (blocked_result empty_world click_buy, [])"
  by (simp add: execute_decision_def Let_def current_signature_def last_failed_signature_def
      click_buy_fields after_first_task_def after_failed_click_def)

lemma second_task_stuck:
  "fst (execute_task run_decision after_first_task (Started plain_task)
          [Decision ''fp1'' (Inr click_buy) empty_world])
   = Some \<lparr>tr_status = Stuck, tr_iterations = Some 1, tr_last_error = Some page_stuck_message,
           tr_summary = None\<rparr>"
proof -
  let ?s = "after_first_task\<lparr>current_task := plain_task, iteration_count := 0,
                              error_history := [], last_error := None\<rparr>"
  let ?s2 = "after_first_task\<lparr>iteration_count := 1, page_state_unchanged_count := 2,
                               error_history := []\<rparr>"
  have "iteration run_decision ?s (Decision ''fp1'' (Inr click_buy) empty_world)
        = handle_result (state_at_decision ?s ''fp1'') (Inr click_buy)
            (run_decision (state_at_decision ?s ''fp1'') (Inr click_buy) empty_world)"
    by (simp add: iteration_def Let_def)
  also have "\<dots> = handle_result ?s2 (Inr click_buy) (blocked_result empty_world click_buy)"
    by (simp only: second_task_state run_decision_def second_task_blocked fst_conv)
  finally have it: "fst (iteration run_decision ?s (Decision ''fp1'' (Inr click_buy) empty_world))
                    = Some \<lparr>tr_status = Stuck, tr_iterations = Some 1,
                            tr_last_error = Some page_stuck_message, tr_summary = None\<rparr>"
    by (simp add: handle_result_def Let_def blocked_result_def action_error_def
        empty_action_result_def truthy_def or_empty_def handle_error_def record_failure_def
        record_attempt_def max_unchanged_threshold_def)
  have b: "iteration_count ?s < max_iterations ?s"
    by (simp add: after_first_task_def after_failed_click_def)
  show ?thesis
    unfolding execute_task_def execute_iteratively_def startup.case
    using it b
    by (cases "iteration run_decision ?s (Decision ''fp1'' (Inr click_buy) empty_world)")
      (auto split: option.splits)
qed

text \<open>
  C3. The claim is that every \<^verbatim>\<open>execute_task\<close> starts from an empty run state. Of the
  run state, the call resets the iteration counter and (at the start of the loop) the error
  history; the previous fingerprint, the unchanged-page counter and the list of attempted
  actions are left as the earlier task left them (first conjunct, for every state). The
  consequence at a concrete input: a first task in which a click fails and which then
  completes leaves one attempted action, a stored fingerprint and an unchanged-page count of
  one (second conjunct); a second task that meets the same page and gets the same decision
  from the model finds that decision blocked as a repetition, without any call of the
  executor, and ends as stuck in its first pass (third and fourth).
\<close>

theorem run_state_survives_task_start:
  "snd (execute_task exec s (Started t) [])
     = s\<lparr>current_task := t, iteration_count := 0, error_history := [], last_error := None\<rparr>
   \<and> execute_task run_decision (initial_state plain_task 50) (Started plain_task)
         [Decision ''fp1'' (Inr click_buy) empty_world, AlreadyComplete ''fp1'' None]
       = (Some \<lparr>tr_status = Completed, tr_iterations = Some 2, tr_last_error = None,
                 tr_summary = None\<rparr>, after_first_task)
   \<and> execute_decision empty_world
         (state_at_decision (snd (execute_task run_decision after_first_task (Started plain_task) []))
            ''fp1'')
         (Inr click_buy)
       = (blocked_result empty_world click_buy, [])
   \<and> fst (execute_task run_decision after_first_task (Started plain_task)
            [Decision ''fp1'' (Inr click_buy) empty_world])
       = Some \<lparr>tr_status = Stuck, tr_iterations = Some 1, tr_last_error = Some page_stuck_message,
               tr_summary = None\<rparr>"
proof -
  have "execute_decision empty_world
         (state_at_decision (snd (execute_task run_decision after_first_task (Started plain_task) []))
            ''fp1'')
         (Inr click_buy)
       = (blocked_result empty_world click_buy, [])"
    by (simp only: loop_entry_state second_task_state second_task_blocked)
  with loop_entry_state first_task_completes second_task_stuck show ?thesis by blast
qed

subsection \<open>A short element with a modal class\<close>

lemma banner_matches: "matches_modal_selector banner"
  by (simp add: matches_modal_selector_def banner_def starts_with_def)

lemma banner_is_small: "\<not> big_enough banner"
  by (simp add: big_enough_def banner_def)

text \<open>
  C9. The claim is that a visible element with \<^verbatim>\<open>modal\<close> in its class and less than
  150 pixels high is nowhere treated as a modal. \<^verbatim>\<open>_detect_modals\<close> checks the height:
  for the page with the 100-pixel banner, \<open>modal_open\<close> is false and no close element is
  computed. \<^verbatim>\<open>_check_modal_visible\<close>, which \<^verbatim>\<open>_get_search_hints\<close> consults, checks
  visibility only: it reports an open modal, the sections for the page's buttons and links
  are suppressed, and the hints shrink to the fallback line. Without the banner the same
  page yields the button and link sections.
\<close>

theorem short_modal_suppresses_hints:
  "modal (analyze banner_doc) = \<lparr>modal_open = False, modal_text = [], modal_close_element = None\<rparr>
   \<and> check_modal_visible banner_doc
   \<and> search_hints (analyze banner_doc) = [DynamicContentHint]
   \<and> search_hints (analyze (banner_doc\<lparr>elements := []\<rparr>))
       = [ButtonsHeader, ButtonHint ''Search'', ButtonHint ''Login'',
          Blank, LinksHeader, LinkHint ''About us'']"
proof -
  have e: "elements banner_doc = [banner]" by (simp add: banner_doc_def)
  have r: "el_role_attr banner = None" "el_aria_role banner = None" "el_visible banner"
    "el_clickables banner = []"
    by (simp_all add: banner_def)
  have 1: "detect_modals banner_doc
           = \<lparr>modal_open = False, modal_text = [], modal_close_element = None\<rparr>"
    by (simp add: detect_modals_def Let_def e r banner_matches banner_is_small)
  have 2: "check_modal_visible banner_doc"
    by (simp add: check_modal_visible_def Let_def e r banner_matches)
  have 3: "get_modal_locator banner_doc = Some banner"
    by (simp add: get_modal_locator_def Let_def e r banner_matches)
  have 4: "get_search_hints banner_doc = [DynamicContentHint]"
    unfolding get_search_hints_def Let_def by (simp add: 2 3 r) (simp add: banner_doc_def)
  have 5: "\<not> check_modal_visible (banner_doc\<lparr>elements := []\<rparr>)"
    by (simp add: check_modal_visible_def Let_def)
  have 6: "get_search_hints (banner_doc\<lparr>elements := []\<rparr>)
           = [ButtonsHeader, ButtonHint ''Search'', ButtonHint ''Login'',
              Blank, LinksHeader, LinkHint ''About us'']"
    unfolding get_search_hints_def Let_def
    by (simp add: 5) (simp add: banner_doc_def add_unique_def)
  from 1 2 4 6 show ?thesis by (simp add: analyze_def)
qed

end
